theory Spec2Isabelle
  imports Complex_Main
begin

section \<open>Python values\<close>

text \<open>
  An event is a \<^verbatim>\<open>dict[str, object]\<close>.  The objects that occur in event payloads are
  \<^verbatim>\<open>None\<close>, booleans, integers (unbounded), floats (finite ones, as rationals), strings,
  lists, tuples and dictionaries keyed by strings.  A dictionary is an association list;
  a Python dictionary has each key once, and \<open>map_of\<close> reads it.
\<close>

datatype pyval =
    VNone
  | VBool bool
  | VInt int
  | VFloat rat
  | VStr string
  | VList "pyval list"
  | VTuple "pyval list"
  | VDict "(string \<times> pyval) list"

type_synonym pydict = "(string \<times> pyval) list"

text \<open>The classes \<^verbatim>\<open>type(x)\<close> can return for these values.\<close>

datatype pycls = NoneType | Cbool | Cint | Cfloat | Cstr | Clist | Ctuple | Cdict

fun type_of :: "pyval \<Rightarrow> pycls" where
  "type_of VNone = NoneType"
| "type_of (VBool b) = Cbool"
| "type_of (VInt n) = Cint"
| "type_of (VFloat r) = Cfloat"
| "type_of (VStr s) = Cstr"
| "type_of (VList xs) = Clist"
| "type_of (VTuple xs) = Ctuple"
| "type_of (VDict d) = Cdict"

text \<open>\<^verbatim>\<open>issubclass\<close>: among these classes the only proper subclass is \<^verbatim>\<open>bool\<close> of \<^verbatim>\<open>int\<close>.\<close>

definition issubclass :: "pycls \<Rightarrow> pycls \<Rightarrow> bool" where
  "issubclass c d = (c = d \<or> (c = Cbool \<and> d = Cint))"

text \<open>
  \<^verbatim>\<open>isinstance(v, t)\<close>, where \<^verbatim>\<open>t\<close> is a class, or a tuple or union of classes (the list
  of its members).
\<close>

definition isinstance :: "pyval \<Rightarrow> pycls list \<Rightarrow> bool" where
  "isinstance v cs = list_ex (issubclass (type_of v)) cs"

text \<open>
  \<^verbatim>\<open>v == s\<close> for a string \<^verbatim>\<open>s\<close>, \<^verbatim>\<open>v == n\<close> for an integer \<^verbatim>\<open>n\<close> and \<^verbatim>\<open>v == b\<close> for a
  boolean \<^verbatim>\<open>b\<close>.  Python compares numbers by value across \<^verbatim>\<open>bool\<close>, \<^verbatim>\<open>int\<close> and
  \<^verbatim>\<open>float\<close>: \<^verbatim>\<open>True == 1\<close> and \<^verbatim>\<open>1.0 == 1\<close> hold.
\<close>

definition eq_str :: "pyval \<Rightarrow> string \<Rightarrow> bool" where
  "eq_str v s = (v = VStr s)"

fun eq_int :: "pyval \<Rightarrow> int \<Rightarrow> bool" where
  "eq_int (VInt m) n = (m = n)"
| "eq_int (VBool b) n = ((if b then 1 else 0) = n)"
| "eq_int (VFloat r) n = (r = of_int n)"
| "eq_int v n = False"

definition eq_bool :: "pyval \<Rightarrow> bool \<Rightarrow> bool" where
  "eq_bool v b = eq_int v (if b then 1 else 0)"

section \<open>Exceptions\<close>

datatype msg = NoMsg | Msg string | MsgVal string pyval

text \<open>
  \<open>ValueError ks\<close> is the error of \<^verbatim>\<open>validate_with_model\<close>, "Extra fields not allowed: ks".
  \<open>ValidationError\<close> is what \<^verbatim>\<open>model_validate\<close> raises.  \<open>AssertionError NoMsg\<close> is a
  failed \<^verbatim>\<open>assert\<close>; \<open>MsgVal p v\<close> is an f-string with the prefix \<open>p\<close> and the value
  \<open>v\<close> interpolated.
\<close>

datatype error =
    ValueError "string set"
  | ValidationError
  | AssertionError msg
  | KeyError pyval
  | TypeError
  | AttributeError
  | IndexError

type_synonym result = "error + unit"

definition py_assert :: "bool \<Rightarrow> result" where
  "py_assert b = (if b then Inr () else Inl (AssertionError NoMsg))"

section \<open>Operations on values\<close>

definition dict_keys :: "pydict \<Rightarrow> string set" where
  "dict_keys d = set (map fst d)"

text \<open>\<^verbatim>\<open>d[k]\<close> raises \<^verbatim>\<open>KeyError\<close> for a missing key.\<close>

definition getitem :: "pydict \<Rightarrow> string \<Rightarrow> error + pyval" where
  "getitem d k = (case map_of d k of None \<Rightarrow> Inl (KeyError (VStr k)) | Some v \<Rightarrow> Inr v)"

text \<open>\<^verbatim>\<open>len(v)\<close>: a \<^verbatim>\<open>TypeError\<close> for \<^verbatim>\<open>None\<close> and numbers.\<close>

fun py_len :: "pyval \<Rightarrow> error + nat" where
  "py_len (VStr s) = Inr (length s)"
| "py_len (VList xs) = Inr (length xs)"
| "py_len (VTuple xs) = Inr (length xs)"
| "py_len (VDict d) = Inr (length (remdups (map fst d)))"
| "py_len v = Inl TypeError"

text \<open>
  \<^verbatim>\<open>v[0]\<close>: the first element of a sequence (\<^verbatim>\<open>IndexError\<close> when it is empty), a
  \<^verbatim>\<open>KeyError\<close> on a dictionary (its keys are strings), a \<^verbatim>\<open>TypeError\<close> on \<^verbatim>\<open>None\<close> and
  numbers.
\<close>

fun py_first :: "pyval \<Rightarrow> error + pyval" where
  "py_first (VList xs) = (case xs of [] \<Rightarrow> Inl IndexError | x # _ \<Rightarrow> Inr x)"
| "py_first (VTuple xs) = (case xs of [] \<Rightarrow> Inl IndexError | x # _ \<Rightarrow> Inr x)"
| "py_first (VStr s) = (case s of [] \<Rightarrow> Inl IndexError | c # _ \<Rightarrow> Inr (VStr [c]))"
| "py_first (VDict d) = Inl (KeyError (VInt 0))"
| "py_first v = Inl TypeError"

text \<open>
  \<^verbatim>\<open>tuple(v)\<close>: the elements of a list or tuple, the characters of a string, the keys of
  a dictionary; a \<^verbatim>\<open>TypeError\<close> for a value that is not iterable.
\<close>

fun py_tuple :: "pyval \<Rightarrow> error + pyval list" where
  "py_tuple (VList xs) = Inr xs"
| "py_tuple (VTuple xs) = Inr xs"
| "py_tuple (VStr s) = Inr (map (\<lambda>c. VStr [c]) s)"
| "py_tuple (VDict d) = Inr (map VStr (remdups (map fst d)))"
| "py_tuple v = Inl TypeError"

section \<open>Models and the imported names\<close>

text \<open>
  A pydantic model class, as far as this module observes it: its name (for the failure
  report), the keys of \<^verbatim>\<open>model_fields\<close>, and whether \<^verbatim>\<open>model_validate(data, strict=True)\<close>
  returns (\<open>True\<close>) or raises.  The model classes themselves are declared in
  \<^verbatim>\<open>zerver/lib/event_types.py\<close>, which is not among the sources, so every checker takes them
  as a parameter.
\<close>

record model =
  model_name :: string
  model_fields :: "string list"
  model_validate :: "pydict \<Rightarrow> bool"

text \<open>The names imported from \<^verbatim>\<open>zerver.lib.event_types\<close> that the checkers below use.\<close>

record event_types =
  EventDeleteMessage :: model
  EventMutedTopics :: model
  EventRealmBotAdd :: model
  EventRealmBotUpdate :: model
  EventRealmUpdate :: model
  EventRealmUpdateDict :: model
  EventUpdateMessage :: model
  BotServicesOutgoing :: model
  BotServicesEmbedded :: model
  AllowMessageEditingData :: model
  MessageContentEditLimitSecondsData :: model
  AuthenticationData :: model
  GroupSettingUpdateData :: model
  PlanTypeData :: model
  RealmTopicsPolicyData :: model
  IconData :: model
  LogoData :: model
  NightLogoData :: model

text \<open>
  An entry of \<^verbatim>\<open>Realm.property_types\<close>: an \<^verbatim>\<open>Enum\<close> subclass (the names of its members),
  or a class, or a tuple or union of classes.
\<close>

datatype property_type = PEnum "string list" | PClass "pycls list"

text \<open>
  The names imported from \<^verbatim>\<open>zerver.models\<close> and \<^verbatim>\<open>zerver.lib.topic\<close>.
  \<^verbatim>\<open>Realm.REALM_PERMISSION_GROUP_SETTINGS\<close> is iterated over its setting names.
\<close>

record zerver =
  Realm_property_types :: "string \<rightharpoonup> property_type"
  Realm_REALM_PERMISSION_GROUP_SETTINGS :: "string list"
  UserProfile_DEFAULT_BOT :: int
  UserProfile_OUTGOING_WEBHOOK_BOT :: int
  UserProfile_EMBEDDED_BOT :: int
  ORIG_TOPIC :: string
  TOPIC_NAME :: string

section \<open>The generic validator and the checker factory\<close>

text \<open>
  \<^verbatim>\<open>validate_with_model\<close>: the check for undeclared keys comes first and raises
  \<^verbatim>\<open>ValueError\<close> with the offending keys; the strict validation follows.
\<close>

definition validate_with_model :: "pydict \<Rightarrow> model \<Rightarrow> result" where
  "validate_with_model data m =
     (if \<not> dict_keys data \<subseteq> set (model_fields m)
      then Inl (ValueError (dict_keys data - set (model_fields m)))
      else if model_validate m data then Inr () else Inl ValidationError)"

text \<open>
  The callers that pass \<^verbatim>\<open>services[0]\<close> or \<^verbatim>\<open>event["data"]\<close> pass an arbitrary object:
  \<^verbatim>\<open>data.keys()\<close> raises \<^verbatim>\<open>AttributeError\<close> when it is not a dictionary.
\<close>

definition validate_object_with_model :: "pyval \<Rightarrow> model \<Rightarrow> result" where
  "validate_object_with_model v m =
     (case v of VDict d \<Rightarrow> validate_with_model d m | _ \<Rightarrow> Inl AttributeError)"

text \<open>
  What a checker writes to standard output: the failure banner, with the label and the
  model, and the pretty-printed event.
\<close>

datatype printed = FailureBanner string string | PrettyPrinted pydict

record world =
  stdout :: "printed list"

type_synonym checker = "world \<Rightarrow> result \<times> world"

text \<open>
  \<^verbatim>\<open>make_checker(base_model)\<close> is the function \<^verbatim>\<open>f(label, event)\<close>: on an exception it
  prints the banner and the event and raises the same exception again.
\<close>

definition make_checker :: "model \<Rightarrow> string \<Rightarrow> pydict \<Rightarrow> checker" where
  "make_checker base_model label event w =
     (case validate_with_model event base_model of
        Inl e \<Rightarrow>
          (Inl e, w\<lparr>stdout := stdout w @
                      [FailureBanner label (model_name base_model), PrettyPrinted event]\<rparr>)
      | Inr u \<Rightarrow> (Inr (), w))"

text \<open>
  Every semantic checker calls its base checker first and runs its own statements only
  when the base checker returned: \<open>after c rest\<close> is \<open>c\<close> followed by the result
  \<open>rest\<close> of those statements, which neither print nor write.
\<close>

definition after :: "checker \<Rightarrow> result \<Rightarrow> checker" where
  "after c rest w = (case c w of (Inl e, w') \<Rightarrow> (Inl e, w') | (Inr u, w') \<Rightarrow> (rest, w'))"

section \<open>The semantic checkers\<close>

subsection \<open>\<^verbatim>\<open>check_delete_message\<close>\<close>

text \<open>The statements of \<^verbatim>\<open>check_delete_message\<close> after the base check.\<close>

definition delete_message_keys :: "string \<Rightarrow> bool \<Rightarrow> string set" where
  "delete_message_keys message_type is_legacy =
     {''id'', ''type'', ''message_type''}
     \<union> (if message_type = ''stream'' then {''stream_id'', ''topic''} else {})
     \<union> (if is_legacy then {''message_id''} else {''message_ids''})"

definition delete_message_checks :: "pydict \<Rightarrow> string \<Rightarrow> int \<Rightarrow> bool \<Rightarrow> result" where
  "delete_message_checks event message_type num_message_ids is_legacy =
     (case getitem event ''message_type'' of
        Inl e \<Rightarrow> Inl e
      | Inr mt \<Rightarrow>
          if \<not> eq_str mt message_type then Inl (AssertionError NoMsg)
          else if message_type \<noteq> ''stream'' \<and> message_type \<noteq> ''private''
          then Inl (AssertionError (Msg ''unexpected message_type''))
          else if is_legacy then
            (if num_message_ids \<noteq> 1 then Inl (AssertionError NoMsg)
             else py_assert (dict_keys event = delete_message_keys message_type is_legacy))
          else
            (case getitem event ''message_ids'' of
               Inl e \<Rightarrow> Inl e
             | Inr ids \<Rightarrow>
                 (case ids of
                    VList xs \<Rightarrow>
                      if num_message_ids \<noteq> int (length xs) then Inl (AssertionError NoMsg)
                      else py_assert (dict_keys event = delete_message_keys message_type is_legacy)
                  | _ \<Rightarrow> Inl (AssertionError NoMsg))))"

definition check_delete_message ::
  "event_types \<Rightarrow> string \<Rightarrow> pydict \<Rightarrow> string \<Rightarrow> int \<Rightarrow> bool \<Rightarrow> checker" where
  "check_delete_message et var_name event message_type num_message_ids is_legacy =
     after (make_checker (EventDeleteMessage et) var_name event)
       (delete_message_checks event message_type num_message_ids is_legacy)"

subsection \<open>\<^verbatim>\<open>check_muted_topics\<close>\<close>

text \<open>The loop over the entries: the first entry that fails ends it.\<close>

fun muted_topics_loop :: "pyval list \<Rightarrow> result" where
  "muted_topics_loop [] = Inr ()"
| "muted_topics_loop (muted_topic # rest) =
     (case py_tuple muted_topic of
        Inl e \<Rightarrow> Inl e
      | Inr muted_topic_tuple \<Rightarrow>
          if map type_of muted_topic_tuple = [Cstr, Cstr, Cint] then muted_topics_loop rest
          else Inl (AssertionError NoMsg))"

definition muted_topics_checks :: "pydict \<Rightarrow> result" where
  "muted_topics_checks event =
     (case getitem event ''muted_topics'' of
        Inl e \<Rightarrow> Inl e
      | Inr muted_topics \<Rightarrow>
          (case muted_topics of
             VList xs \<Rightarrow> muted_topics_loop xs
           | _ \<Rightarrow> Inl (AssertionError NoMsg)))"

definition check_muted_topics :: "event_types \<Rightarrow> string \<Rightarrow> pydict \<Rightarrow> checker" where
  "check_muted_topics et var_name event =
     after (make_checker (EventMutedTopics et) var_name event) (muted_topics_checks event)"

subsection \<open>\<^verbatim>\<open>check_realm_bot_add\<close>\<close>

text \<open>
  The two branches \<^verbatim>\<open>assert len(services) == 1; validate_with_model(services[0], M)\<close>.
\<close>

definition one_service :: "pyval \<Rightarrow> model \<Rightarrow> result" where
  "one_service services m =
     (case py_len services of
        Inl e \<Rightarrow> Inl e
      | Inr n \<Rightarrow>
          if n \<noteq> 1 then Inl (AssertionError NoMsg)
          else (case py_first services of
                  Inl e \<Rightarrow> Inl e
                | Inr s \<Rightarrow> validate_object_with_model s m))"

definition realm_bot_add_checks :: "event_types \<Rightarrow> zerver \<Rightarrow> pydict \<Rightarrow> result" where
  "realm_bot_add_checks et z event =
     (case getitem event ''bot'' of
        Inl e \<Rightarrow> Inl e
      | Inr bot_obj \<Rightarrow>
          (case bot_obj of
             VDict b \<Rightarrow>
               (case getitem b ''bot_type'' of
                  Inl e \<Rightarrow> Inl e
                | Inr bot_type \<Rightarrow>
                    (case getitem b ''services'' of
                       Inl e \<Rightarrow> Inl e
                     | Inr services \<Rightarrow>
                         if eq_int bot_type (UserProfile_DEFAULT_BOT z)
                         then py_assert (services = VList [])
                         else if eq_int bot_type (UserProfile_OUTGOING_WEBHOOK_BOT z)
                         then one_service services (BotServicesOutgoing et)
                         else if eq_int bot_type (UserProfile_EMBEDDED_BOT z)
                         then one_service services (BotServicesEmbedded et)
                         else Inl (AssertionError (MsgVal ''Unknown bot_type: '' bot_type))))
           | _ \<Rightarrow> Inl (AssertionError NoMsg)))"

definition check_realm_bot_add :: "event_types \<Rightarrow> zerver \<Rightarrow> string \<Rightarrow> pydict \<Rightarrow> checker" where
  "check_realm_bot_add et z var_name event =
     after (make_checker (EventRealmBotAdd et) var_name event) (realm_bot_add_checks et z event)"

subsection \<open>\<^verbatim>\<open>check_realm_bot_update\<close>\<close>

definition realm_bot_update_checks :: "pydict \<Rightarrow> string \<Rightarrow> result" where
  "realm_bot_update_checks event field =
     (case getitem event ''bot'' of
        Inl e \<Rightarrow> Inl e
      | Inr bot_obj \<Rightarrow>
          (case bot_obj of
             VDict b \<Rightarrow> py_assert ({''user_id'', field} = dict_keys b)
           | _ \<Rightarrow> Inl (AssertionError NoMsg)))"

definition check_realm_bot_update :: "event_types \<Rightarrow> string \<Rightarrow> pydict \<Rightarrow> string \<Rightarrow> checker" where
  "check_realm_bot_update et var_name event field =
     after (make_checker (EventRealmBotUpdate et) var_name event)
       (realm_bot_update_checks event field)"

subsection \<open>\<^verbatim>\<open>check_realm_update\<close>\<close>

text \<open>The list of the \<^verbatim>\<open>if prop in [...]\<close> test.\<close>

definition plain_int_props :: "string list" where
  "plain_int_props =
     [''moderation_request_channel_id'',
      ''new_stream_announcements_stream_id'',
      ''signup_announcements_stream_id'',
      ''zulip_update_announcements_stream_id'',
      ''org_type'']"

text \<open>
  \<^verbatim>\<open>Realm.property_types[prop]\<close> raises \<^verbatim>\<open>KeyError\<close> for an unknown property, and so does
  \<^verbatim>\<open>property_type[value]\<close> for a string that names no member of the enumeration.
\<close>

definition realm_update_checks :: "zerver \<Rightarrow> pydict \<Rightarrow> string \<Rightarrow> result" where
  "realm_update_checks z event prop =
     (case getitem event ''property'' of
        Inl e \<Rightarrow> Inl e
      | Inr p \<Rightarrow>
          if \<not> eq_str p prop then Inl (AssertionError NoMsg)
          else
            (case getitem event ''value'' of
               Inl e \<Rightarrow> Inl e
             | Inr v \<Rightarrow>
                 if prop \<in> set plain_int_props then py_assert (isinstance v [Cint])
                 else
                   (case Realm_property_types z prop of
                      None \<Rightarrow> Inl (KeyError (VStr prop))
                    | Some (PEnum names) \<Rightarrow>
                        (case v of
                           VStr s \<Rightarrow> if s \<in> set names then Inr () else Inl (KeyError (VStr s))
                         | _ \<Rightarrow> Inl (AssertionError NoMsg))
                    | Some (PClass cs) \<Rightarrow> py_assert (isinstance v cs))))"

definition check_realm_update ::
  "event_types \<Rightarrow> zerver \<Rightarrow> string \<Rightarrow> pydict \<Rightarrow> string \<Rightarrow> checker" where
  "check_realm_update et z var_name event prop =
     after (make_checker (EventRealmUpdate et) var_name event) (realm_update_checks z event prop)"

subsection \<open>\<^verbatim>\<open>check_realm_update_dict\<close>\<close>

text \<open>
  The \<^verbatim>\<open>if\<close>/\<^verbatim>\<open>elif\<close> chain that binds \<^verbatim>\<open>sub_type\<close>.  The message of the last
  \<^verbatim>\<open>AssertionError\<close> is a plain string in the source, not an f-string: it begins
  "unhandled property" and carries no value (its remainder, a placeholder in braces that is
  never interpolated, is left out here).
\<close>

definition realm_update_dict_sub_type :: "event_types \<Rightarrow> zerver \<Rightarrow> pydict \<Rightarrow> error + model" where
  "realm_update_dict_sub_type et z event =
     (case getitem event ''property'' of
        Inl e \<Rightarrow> Inl e
      | Inr p \<Rightarrow>
          if eq_str p ''default'' then
            (case getitem event ''data'' of
               Inl e \<Rightarrow> Inl e
             | Inr dv \<Rightarrow>
                 (case dv of
                    VDict d \<Rightarrow>
                      if ''allow_message_editing'' \<in> dict_keys d
                      then Inr (AllowMessageEditingData et)
                      else if ''message_content_edit_limit_seconds'' \<in> dict_keys d
                      then Inr (MessageContentEditLimitSecondsData et)
                      else if ''authentication_methods'' \<in> dict_keys d
                      then Inr (AuthenticationData et)
                      else if list_ex (\<lambda>setting_name. setting_name \<in> dict_keys d)
                                (Realm_REALM_PERMISSION_GROUP_SETTINGS z)
                      then Inr (GroupSettingUpdateData et)
                      else if ''plan_type'' \<in> dict_keys d
                      then Inr (PlanTypeData et)
                      else if ''topics_policy'' \<in> dict_keys d
                      then Inr (RealmTopicsPolicyData et)
                      else Inl (AssertionError (Msg ''unhandled fields in data''))
                  | _ \<Rightarrow> Inl (AssertionError NoMsg)))
          else if eq_str p ''icon'' then Inr (IconData et)
          else if eq_str p ''logo'' then Inr (LogoData et)
          else if eq_str p ''night_logo'' then Inr (NightLogoData et)
          else Inl (AssertionError (Msg ''unhandled property'')))"

definition realm_update_dict_checks :: "event_types \<Rightarrow> zerver \<Rightarrow> pydict \<Rightarrow> result" where
  "realm_update_dict_checks et z event =
     (case realm_update_dict_sub_type et z event of
        Inl e \<Rightarrow> Inl e
      | Inr sub_type \<Rightarrow>
          (case getitem event ''data'' of
             Inl e \<Rightarrow> Inl e
           | Inr dv \<Rightarrow> validate_object_with_model dv sub_type))"

definition check_realm_update_dict :: "event_types \<Rightarrow> zerver \<Rightarrow> string \<Rightarrow> pydict \<Rightarrow> checker" where
  "check_realm_update_dict et z var_name event =
     after (make_checker (EventRealmUpdateDict et) var_name event)
       (realm_update_dict_checks et z event)"

subsection \<open>\<^verbatim>\<open>check_update_message\<close>\<close>

definition update_message_expected_keys ::
  "zerver \<Rightarrow> bool \<Rightarrow> bool \<Rightarrow> bool \<Rightarrow> bool \<Rightarrow> bool \<Rightarrow> string set" where
  "update_message_expected_keys z is_stream_message has_content has_topic has_new_stream_id
       is_embedded_update_only =
     {''id'', ''type'', ''user_id'', ''edit_timestamp'', ''message_id'', ''flags'',
      ''message_ids'', ''rendering_only''}
     \<union> (if is_stream_message then {''stream_id'', ''stream_name''} else {})
     \<union> (if has_content
         then {''is_me_message'', ''orig_content'', ''orig_rendered_content'', ''content'',
               ''rendered_content''}
         else {})
     \<union> (if has_topic
         then {''topic_links'', ORIG_TOPIC z, TOPIC_NAME z, ''propagate_mode''}
         else {})
     \<union> (if has_new_stream_id
         then {''new_stream_id'', ORIG_TOPIC z, ''propagate_mode''}
         else {})
     \<union> (if is_embedded_update_only then {''content'', ''rendered_content''} else {})"

definition update_message_checks ::
  "zerver \<Rightarrow> pydict \<Rightarrow> bool \<Rightarrow> bool \<Rightarrow> bool \<Rightarrow> bool \<Rightarrow> bool \<Rightarrow> result" where
  "update_message_checks z event is_stream_message has_content has_topic has_new_stream_id
       is_embedded_update_only =
     (case getitem event ''user_id'' of
        Inl e \<Rightarrow> Inl e
      | Inr user_id \<Rightarrow>
          if \<not> (if is_embedded_update_only then user_id = VNone else isinstance user_id [Cint])
          then Inl (AssertionError NoMsg)
          else
            (case getitem event ''rendering_only'' of
               Inl e \<Rightarrow> Inl e
             | Inr rendering_only \<Rightarrow>
                 if \<not> eq_bool rendering_only is_embedded_update_only
                 then Inl (AssertionError NoMsg)
                 else py_assert
                        (update_message_expected_keys z is_stream_message has_content has_topic
                           has_new_stream_id is_embedded_update_only = dict_keys event)))"

definition check_update_message ::
  "event_types \<Rightarrow> zerver \<Rightarrow> string \<Rightarrow> pydict \<Rightarrow> bool \<Rightarrow> bool \<Rightarrow> bool \<Rightarrow> bool \<Rightarrow> bool \<Rightarrow> checker"
  where
  "check_update_message et z var_name event is_stream_message has_content has_topic
       has_new_stream_id is_embedded_update_only =
     after (make_checker (EventUpdateMessage et) var_name event)
       (update_message_checks z event is_stream_message has_content has_topic has_new_stream_id
          is_embedded_update_only)"

section \<open>Strict validation of declared fields\<close>

text \<open>
  Modelled from the spec: pydantic and \<^verbatim>\<open>zerver/lib/event_types.py\<close> are not among the
  sources.  A schema is a closed set of field declarations, field name to expected type
  and optional flag; every value satisfies its declared type with no implicit coercion (a
  boolean is not accepted where only an integer is declared); optional fields may be
  absent.  \<open>TModel\<close> is a nested schema: (field, type, required).
\<close>

datatype pyty =
    TAny
  | TNone
  | TBool
  | TInt
  | TStr
  | TLiteral "pyval list"
  | TList pyty
  | TTuple "pyty list"
  | TDict pyty
  | TUnion "pyty list"
  | TModel "(string \<times> pyty \<times> bool) list"

fun conforms :: "pyty \<Rightarrow> pyval \<Rightarrow> bool" where
  "conforms TAny v = True"
| "conforms TNone v = (v = VNone)"
| "conforms TBool v = (case v of VBool b \<Rightarrow> True | _ \<Rightarrow> False)"
| "conforms TInt v = (case v of VInt n \<Rightarrow> True | _ \<Rightarrow> False)"
| "conforms TStr v = (case v of VStr s \<Rightarrow> True | _ \<Rightarrow> False)"
| "conforms (TLiteral vs) v = (v \<in> set vs)"
| "conforms (TList t) v = (case v of VList xs \<Rightarrow> list_all (conforms t) xs | _ \<Rightarrow> False)"
| "conforms (TTuple ts) v = (case v of VTuple xs \<Rightarrow> list_all2 conforms ts xs | _ \<Rightarrow> False)"
| "conforms (TDict t) v =
     (case v of VDict kvs \<Rightarrow> list_all (\<lambda>kv. conforms t (snd kv)) kvs | _ \<Rightarrow> False)"
| "conforms (TUnion ts) v = list_ex (\<lambda>t. conforms t v) ts"
| "conforms (TModel fs) v =
     (case v of
        VDict kvs \<Rightarrow>
          list_all (\<lambda>f. case map_of kvs (fst f) of
                            None \<Rightarrow> \<not> snd (snd f)
                          | Some x \<Rightarrow> conforms (fst (snd f)) x) fs
      | _ \<Rightarrow> False)"

text \<open>
  Modelled from the spec: the model class of a list of field declarations, validated
  strictly (the classes of \<^verbatim>\<open>zerver/lib/event_types.py\<close> are missing).
\<close>

definition strict_model :: "string \<Rightarrow> (string \<times> pyty \<times> bool) list \<Rightarrow> model" where
  "strict_model name decls =
     \<lparr>model_name = name,
      model_fields = map fst decls,
      model_validate = (\<lambda>data. conforms (TModel decls) (VDict data))\<rparr>"

section \<open>An instance of the imported names\<close>

text \<open>
  Modelled from the spec: \<^verbatim>\<open>zerver/lib/event_types.py\<close>, \<^verbatim>\<open>zerver/models\<close> and
  \<^verbatim>\<open>zerver/lib/topic.py\<close> are missing.  The declarations below are one instance of them,
  with the fields the spec names for each event kind; the checkers are run on concrete
  events against this instance.  Every event carries the integer \<^verbatim>\<open>id\<close> and its
  \<^verbatim>\<open>type\<close>.
\<close>

definition ex_EventDeleteMessage :: model where
  "ex_EventDeleteMessage = strict_model ''EventDeleteMessage''
     [(''id'', TInt, True),
      (''type'', TLiteral [VStr ''delete_message''], True),
      (''message_type'', TLiteral [VStr ''private'', VStr ''stream''], True),
      (''message_id'', TInt, False),
      (''message_ids'', TList TInt, False),
      (''stream_id'', TInt, False),
      (''topic'', TStr, False)]"

definition ex_EventMutedTopics :: model where
  "ex_EventMutedTopics = strict_model ''EventMutedTopics''
     [(''id'', TInt, True),
      (''type'', TLiteral [VStr ''muted_topics''], True),
      (''muted_topics'', TList (TTuple [TStr, TStr, TInt]), True)]"

definition ex_BotServicesOutgoing :: model where
  "ex_BotServicesOutgoing = strict_model ''BotServicesOutgoing''
     [(''base_url'', TStr, True), (''interface'', TInt, True), (''token'', TStr, True)]"

definition ex_BotServicesEmbedded :: model where
  "ex_BotServicesEmbedded = strict_model ''BotServicesEmbedded''
     [(''service_name'', TStr, True), (''config_data'', TDict TStr, True)]"

definition ex_EventRealmBotAdd :: model where
  "ex_EventRealmBotAdd = strict_model ''EventRealmBotAdd''
     [(''id'', TInt, True),
      (''type'', TLiteral [VStr ''realm_bot''], True),
      (''op'', TLiteral [VStr ''add''], True),
      (''bot'', TModel [(''user_id'', TInt, True),
                        (''full_name'', TStr, True),
                        (''bot_type'', TInt, True),
                        (''services'', TList (TDict TAny), True)], True)]"

definition ex_EventRealmBotUpdate :: model where
  "ex_EventRealmBotUpdate = strict_model ''EventRealmBotUpdate''
     [(''id'', TInt, True),
      (''type'', TLiteral [VStr ''realm_bot''], True),
      (''op'', TLiteral [VStr ''update''], True),
      (''bot'', TModel [(''user_id'', TInt, True),
                        (''full_name'', TStr, False),
                        (''is_active'', TBool, False),
                        (''owner_id'', TInt, False)], True)]"

definition ex_EventRealmUpdate :: model where
  "ex_EventRealmUpdate = strict_model ''EventRealmUpdate''
     [(''id'', TInt, True),
      (''type'', TLiteral [VStr ''realm''], True),
      (''op'', TLiteral [VStr ''update''], True),
      (''property'', TStr, True),
      (''value'', TUnion [TBool, TInt, TStr], True)]"

definition ex_EventRealmUpdateDict :: model where
  "ex_EventRealmUpdateDict = strict_model ''EventRealmUpdateDict''
     [(''id'', TInt, True),
      (''type'', TLiteral [VStr ''realm''], True),
      (''op'', TLiteral [VStr ''update_dict''], True),
      (''property'', TStr, True),
      (''data'', TDict TAny, True)]"

definition ex_EventUpdateMessage :: model where
  "ex_EventUpdateMessage = strict_model ''EventUpdateMessage''
     [(''id'', TInt, True),
      (''type'', TLiteral [VStr ''update_message''], True),
      (''user_id'', TUnion [TInt, TNone], True),
      (''edit_timestamp'', TInt, True),
      (''message_id'', TInt, True),
      (''flags'', TList TStr, True),
      (''message_ids'', TList TInt, True),
      (''rendering_only'', TBool, True),
      (''stream_id'', TInt, False),
      (''stream_name'', TStr, False),
      (''is_me_message'', TBool, False),
      (''orig_content'', TStr, False),
      (''orig_rendered_content'', TStr, False),
      (''content'', TStr, False),
      (''rendered_content'', TStr, False),
      (''topic_links'', TList TAny, False),
      (''subject'', TStr, False),
      (''orig_subject'', TStr, False),
      (''propagate_mode'', TStr, False),
      (''new_stream_id'', TInt, False)]"

definition ex_event_types :: event_types where
  "ex_event_types =
     \<lparr>EventDeleteMessage = ex_EventDeleteMessage,
      EventMutedTopics = ex_EventMutedTopics,
      EventRealmBotAdd = ex_EventRealmBotAdd,
      EventRealmBotUpdate = ex_EventRealmBotUpdate,
      EventRealmUpdate = ex_EventRealmUpdate,
      EventRealmUpdateDict = ex_EventRealmUpdateDict,
      EventUpdateMessage = ex_EventUpdateMessage,
      BotServicesOutgoing = ex_BotServicesOutgoing,
      BotServicesEmbedded = ex_BotServicesEmbedded,
      AllowMessageEditingData =
        strict_model ''AllowMessageEditingData'' [(''allow_message_editing'', TBool, True)],
      MessageContentEditLimitSecondsData =
        strict_model ''MessageContentEditLimitSecondsData''
          [(''message_content_edit_limit_seconds'', TUnion [TInt, TNone], True)],
      AuthenticationData =
        strict_model ''AuthenticationData'' [(''authentication_methods'', TDict TAny, True)],
      GroupSettingUpdateData =
        strict_model ''GroupSettingUpdateData''
          [(''can_create_groups'', TInt, False), (''can_invite_users_group'', TInt, False)],
      PlanTypeData =
        strict_model ''PlanTypeData''
          [(''plan_type'', TInt, True), (''upload_quota_mib'', TUnion [TInt, TNone], True)],
      RealmTopicsPolicyData =
        strict_model ''RealmTopicsPolicyData'' [(''topics_policy'', TStr, True)],
      IconData =
        strict_model ''IconData'' [(''icon_url'', TStr, True), (''icon_source'', TStr, True)],
      LogoData =
        strict_model ''LogoData'' [(''logo_url'', TStr, True), (''logo_source'', TStr, True)],
      NightLogoData =
        strict_model ''NightLogoData''
          [(''night_logo_url'', TStr, True), (''night_logo_source'', TStr, True)]\<rparr>"

definition ex_zerver :: zerver where
  "ex_zerver =
     \<lparr>Realm_property_types =
        map_of [(''name'', PClass [Cstr]),
                (''invite_required'', PClass [Cbool]),
                (''waiting_period_threshold'', PClass [Cint]),
                (''message_retention_days'', PClass [Cint, NoneType]),
                (''topics_policy'', PEnum [''allow_empty_topic'', ''disable_empty_topic''])],
      Realm_REALM_PERMISSION_GROUP_SETTINGS = [''can_create_groups'', ''can_invite_users_group''],
      UserProfile_DEFAULT_BOT = 1,
      UserProfile_OUTGOING_WEBHOOK_BOT = 3,
      UserProfile_EMBEDDED_BOT = 4,
      ORIG_TOPIC = ''orig_subject'',
      TOPIC_NAME = ''subject''\<rparr>"

text \<open>The world before a check: nothing printed.\<close>

definition w0 :: world where
  "w0 = \<lparr>stdout = []\<rparr>"

section \<open>The priority order of the default realm update, as the specification words it\<close>

text \<open>
  The specification's order for \<^verbatim>\<open>property == "default"\<close>: the first match among
  message-editing settings, edit-time limit, authentication methods, any permission-group
  setting name, plan type, topics policy.  \<open>spec_first_match\<close> is the schema of the first
  entry of that list whose key test holds; it is compared with the source's chain below.
\<close>

definition spec_default_priority :: "event_types \<Rightarrow> zerver \<Rightarrow> ((pydict \<Rightarrow> bool) \<times> model) list"
  where
  "spec_default_priority et z =
     [(\<lambda>d. ''allow_message_editing'' \<in> dict_keys d, AllowMessageEditingData et),
      (\<lambda>d. ''message_content_edit_limit_seconds'' \<in> dict_keys d,
         MessageContentEditLimitSecondsData et),
      (\<lambda>d. ''authentication_methods'' \<in> dict_keys d, AuthenticationData et),
      (\<lambda>d. list_ex (\<lambda>n. n \<in> dict_keys d) (Realm_REALM_PERMISSION_GROUP_SETTINGS z),
         GroupSettingUpdateData et),
      (\<lambda>d. ''plan_type'' \<in> dict_keys d, PlanTypeData et),
      (\<lambda>d. ''topics_policy'' \<in> dict_keys d, RealmTopicsPolicyData et)]"

definition spec_first_match :: "event_types \<Rightarrow> zerver \<Rightarrow> pydict \<Rightarrow> model option" where
  "spec_first_match et z d =
     map_option snd (find (\<lambda>pm. fst pm d) (spec_default_priority et z))"

section \<open>Properties\<close>

subsection \<open>A checker after its base checker\<close>

lemma fst_after_make_checker:
  "fst (after (make_checker m label event) rest w) =
     (case validate_with_model event m of Inl e \<Rightarrow> Inl e | Inr u \<Rightarrow> rest)"
  by (simp add: after_def make_checker_def split: sum.splits)

lemma after_make_checker_ok:
  "fst (after (make_checker m label event) rest w) = Inr () \<longleftrightarrow>
     validate_with_model event m = Inr () \<and> rest = Inr ()"
  by (simp add: fst_after_make_checker split: sum.splits)

lemmas run_defs =
  fst_after_make_checker validate_with_model_def validate_object_with_model_def
  strict_model_def dict_keys_def getitem_def py_assert_def eq_str_def eq_bool_def
  isinstance_def issubclass_def ex_event_types_def ex_zerver_def w0_def

lemma ex_models [simp]:
  "EventDeleteMessage ex_event_types = ex_EventDeleteMessage"
  "EventMutedTopics ex_event_types = ex_EventMutedTopics"
  "EventRealmBotAdd ex_event_types = ex_EventRealmBotAdd"
  "EventRealmBotUpdate ex_event_types = ex_EventRealmBotUpdate"
  "EventRealmUpdate ex_event_types = ex_EventRealmUpdate"
  "EventRealmUpdateDict ex_event_types = ex_EventRealmUpdateDict"
  "EventUpdateMessage ex_event_types = ex_EventUpdateMessage"
  "BotServicesOutgoing ex_event_types = ex_BotServicesOutgoing"
  "BotServicesEmbedded ex_event_types = ex_BotServicesEmbedded"
  by (simp_all add: ex_event_types_def)

lemma ex_zerver_sel [simp]:
  "Realm_REALM_PERMISSION_GROUP_SETTINGS ex_zerver
     = [''can_create_groups'', ''can_invite_users_group'']"
  "UserProfile_DEFAULT_BOT ex_zerver = 1"
  "UserProfile_OUTGOING_WEBHOOK_BOT ex_zerver = 3"
  "UserProfile_EMBEDDED_BOT ex_zerver = 4"
  "ORIG_TOPIC ex_zerver = ''orig_subject''"
  "TOPIC_NAME ex_zerver = ''subject''"
  by (simp_all add: ex_zerver_def)

lemma ex_sub_models [simp]:
  "AllowMessageEditingData ex_event_types =
     strict_model ''AllowMessageEditingData'' [(''allow_message_editing'', TBool, True)]"
  "GroupSettingUpdateData ex_event_types =
     strict_model ''GroupSettingUpdateData''
       [(''can_create_groups'', TInt, False), (''can_invite_users_group'', TInt, False)]"
  "PlanTypeData ex_event_types =
     strict_model ''PlanTypeData''
       [(''plan_type'', TInt, True), (''upload_quota_mib'', TUnion [TInt, TNone], True)]"
  "IconData ex_event_types =
     strict_model ''IconData'' [(''icon_url'', TStr, True), (''icon_source'', TStr, True)]"
  by (simp_all add: ex_event_types_def)

lemma ex_property_types [simp]:
  "Realm_property_types ex_zerver ''waiting_period_threshold'' = Some (PClass [Cint])"
  "Realm_property_types ex_zerver ''topics_policy''
     = Some (PEnum [''allow_empty_topic'', ''disable_empty_topic''])"
  "Realm_property_types ex_zerver ''invite_required'' = Some (PClass [Cbool])"
  "Realm_property_types ex_zerver ''org_type'' = None"
  by (simp_all add: ex_zerver_def)

lemmas val_defs =
  validate_with_model_def validate_object_with_model_def strict_model_def dict_keys_def
  set_eq_subset

lemmas chk_defs =
  dict_keys_def eq_str_def eq_bool_def isinstance_def issubclass_def set_eq_subset

lemma conforms_field:
  "conforms (TModel decls) (VDict d) \<Longrightarrow> (k, t, req) \<in> set decls \<Longrightarrow> map_of d k = Some v
     \<Longrightarrow> conforms t v"
  by (auto simp: list_all_iff)

lemma strict_model_field:
  assumes "validate_with_model d (strict_model name decls) = Inr ()"
    and "(k, t, req) \<in> set decls" and "map_of d k = Some v"
  shows "conforms t v"
proof -
  from assms(1) have "conforms (TModel decls) (VDict d)"
    by (simp add: validate_with_model_def strict_model_def split: if_splits)
  then show ?thesis using assms(2,3) by (rule conforms_field)
qed

subsection \<open>The order of the two checks of \<^verbatim>\<open>validate_with_model\<close>\<close>

text \<open>
  Claim C9.  In \<^verbatim>\<open>validate_with_model\<close> the check for unknown fields comes before any
  type validation: for every event with a key that the model does not declare, the error
  is the \<^verbatim>\<open>ValueError\<close> that names the offending keys, whatever the strict validation
  would say, and never the type-mismatch error; the checker made by \<^verbatim>\<open>make_checker\<close>
  raises that same error.
\<close>

theorem extra_fields_error_first:
  "\<not> dict_keys data \<subseteq> set (model_fields m) \<Longrightarrow>
     validate_with_model data m = Inl (ValueError (dict_keys data - set (model_fields m)))
     \<and> validate_with_model data m \<noteq> Inl ValidationError
     \<and> fst (make_checker m label data w)
         = Inl (ValueError (dict_keys data - set (model_fields m)))"
  by (simp add: validate_with_model_def make_checker_def)

theorem extra_fields_error_first_witness:
  "\<not> dict_keys [(''id'', VBool True), (''type'', VStr ''realm''), (''op'', VStr ''update''),
                 (''property'', VStr ''name''), (''value'', VStr ''x''), (''extra'', VInt 1)]
       \<subseteq> set (model_fields ex_EventRealmUpdate)
   \<and> \<not> model_validate ex_EventRealmUpdate
         [(''id'', VBool True), (''type'', VStr ''realm''), (''op'', VStr ''update''),
          (''property'', VStr ''name''), (''value'', VStr ''x''), (''extra'', VInt 1)]
   \<and> fst (make_checker ex_EventRealmUpdate ''label''
         [(''id'', VBool True), (''type'', VStr ''realm''), (''op'', VStr ''update''),
          (''property'', VStr ''name''), (''value'', VStr ''x''), (''extra'', VInt 1)] w0)
       = Inl (ValueError {''extra''})"
  using extra_fields_error_first [of
      "[(''id'', VBool True), (''type'', VStr ''realm''), (''op'', VStr ''update''),
        (''property'', VStr ''name''), (''value'', VStr ''x''), (''extra'', VInt 1)]"
      ex_EventRealmUpdate "''label''" w0]
  by (simp add: ex_EventRealmUpdate_def strict_model_def dict_keys_def)

subsection \<open>\<^verbatim>\<open>check_realm_bot_update\<close> with the field \<^verbatim>\<open>user_id\<close>\<close>

text \<open>
  Claim C10.  With \<^verbatim>\<open>field = "user_id"\<close> the required key set \<^verbatim>\<open>{"user_id", field}\<close> has
  one element: \<^verbatim>\<open>check_realm_bot_update\<close> accepts an event exactly when the base check
  passes and the nested bot object is a dictionary whose only key is \<^verbatim>\<open>user_id\<close>.
\<close>

theorem realm_bot_update_user_id_field:
  "fst (check_realm_bot_update et var_name event ''user_id'' w) = Inr () \<longleftrightarrow>
     validate_with_model event (EventRealmBotUpdate et) = Inr ()
     \<and> (\<exists>b. map_of event ''bot'' = Some (VDict b) \<and> dict_keys b = {''user_id''})"
  unfolding check_realm_bot_update_def after_make_checker_ok realm_bot_update_checks_def
    getitem_def py_assert_def
  by (auto split: option.splits pyval.splits)

theorem realm_bot_update_user_id_field_witness:
  "validate_with_model
       [(''id'', VInt 0), (''type'', VStr ''realm_bot''), (''op'', VStr ''update''),
        (''bot'', VDict [(''user_id'', VInt 5)])] (EventRealmBotUpdate ex_event_types) = Inr ()
   \<and> fst (check_realm_bot_update ex_event_types ''label''
       [(''id'', VInt 0), (''type'', VStr ''realm_bot''), (''op'', VStr ''update''),
        (''bot'', VDict [(''user_id'', VInt 5)])] ''user_id'' w0) = Inr ()"
  using realm_bot_update_user_id_field [of ex_event_types "''label''"
      "[(''id'', VInt 0), (''type'', VStr ''realm_bot''), (''op'', VStr ''update''),
        (''bot'', VDict [(''user_id'', VInt 5)])]" w0]
  by (simp add: run_defs ex_EventRealmBotUpdate_def)

subsection \<open>\<^verbatim>\<open>check_delete_message\<close>\<close>

text \<open>
  Claim C3.  \<^verbatim>\<open>check_delete_message\<close> succeeds exactly when the base check passes, the
  event's \<^verbatim>\<open>message_type\<close> is the expected one and is \<^verbatim>\<open>"stream"\<close> or \<^verbatim>\<open>"private"\<close>,
  the count is 1 in legacy mode and the length of the \<^verbatim>\<open>message_ids\<close> list otherwise, and
  the key set is \<^verbatim>\<open>{id, type, message_type}\<close>, plus \<^verbatim>\<open>{stream_id, topic}\<close> for a stream
  message, plus \<^verbatim>\<open>message_id\<close> in legacy mode or \<^verbatim>\<open>message_ids\<close> otherwise.  In
  particular legacy mode with \<^verbatim>\<open>num_message_ids = 2\<close> fails, and so does any other
  \<^verbatim>\<open>message_type\<close>.
\<close>

theorem check_delete_message_iff:
  "(fst (check_delete_message et var_name event message_type num_message_ids is_legacy w) = Inr ()
      \<longleftrightarrow>
      validate_with_model event (EventDeleteMessage et) = Inr ()
      \<and> map_of event ''message_type'' = Some (VStr message_type)
      \<and> (message_type = ''stream'' \<or> message_type = ''private'')
      \<and> (if is_legacy then num_message_ids = 1
          else \<exists>xs. map_of event ''message_ids'' = Some (VList xs)
                  \<and> num_message_ids = int (length xs))
      \<and> dict_keys event =
          {''id'', ''type'', ''message_type''}
          \<union> (if message_type = ''stream'' then {''stream_id'', ''topic''} else {})
          \<union> (if is_legacy then {''message_id''} else {''message_ids''}))
   \<and> (is_legacy \<and> num_message_ids = 2 \<longrightarrow>
        fst (check_delete_message et var_name event message_type num_message_ids is_legacy w)
          \<noteq> Inr ())
   \<and> (message_type \<noteq> ''stream'' \<and> message_type \<noteq> ''private'' \<longrightarrow>
        fst (check_delete_message et var_name event message_type num_message_ids is_legacy w)
          \<noteq> Inr ())"
  unfolding check_delete_message_def after_make_checker_ok delete_message_checks_def
    getitem_def py_assert_def eq_str_def delete_message_keys_def
  by (auto split: option.splits pyval.splits)

theorem check_delete_message_iff_witness:
  "fst (check_delete_message ex_event_types ''label''
          [(''id'', VInt 1), (''type'', VStr ''delete_message''),
           (''message_type'', VStr ''stream''), (''stream_id'', VInt 7),
           (''topic'', VStr ''lunch''), (''message_ids'', VList [VInt 10, VInt 11])]
          ''stream'' 2 False w0) = Inr ()
   \<and> fst (check_delete_message ex_event_types ''label''
          [(''id'', VInt 1), (''type'', VStr ''delete_message''),
           (''message_type'', VStr ''private''), (''message_id'', VInt 10)]
          ''private'' 1 True w0) = Inr ()
   \<and> fst (check_delete_message ex_event_types ''label''
          [(''id'', VInt 1), (''type'', VStr ''delete_message''),
           (''message_type'', VStr ''private''), (''message_id'', VInt 10)]
          ''private'' 2 True w0) \<noteq> Inr ()
   \<and> fst (check_delete_message ex_event_types ''label''
          [(''id'', VInt 1), (''type'', VStr ''delete_message''),
           (''message_type'', VStr ''stream''), (''topic'', VStr ''lunch''),
           (''message_ids'', VList [VInt 10, VInt 11])]
          ''stream'' 2 False w0) \<noteq> Inr ()
   \<and> fst (check_delete_message ex_event_types ''label''
          [(''id'', VInt 1), (''type'', VStr ''delete_message''),
           (''message_type'', VStr ''bogus''), (''message_id'', VInt 10)]
          ''bogus'' 1 True w0) \<noteq> Inr ()"
proof -
  have v1: "validate_with_model
          [(''id'', VInt 1), (''type'', VStr ''delete_message''),
           (''message_type'', VStr ''stream''), (''stream_id'', VInt 7),
           (''topic'', VStr ''lunch''), (''message_ids'', VList [VInt 10, VInt 11])]
          ex_EventDeleteMessage = Inr ()"
    by (simp add: val_defs ex_EventDeleteMessage_def)
  have v2: "validate_with_model
          [(''id'', VInt 1), (''type'', VStr ''delete_message''),
           (''message_type'', VStr ''private''), (''message_id'', VInt 10)]
          ex_EventDeleteMessage = Inr ()"
    by (simp add: val_defs ex_EventDeleteMessage_def)
  show ?thesis
    using v1 v2
    by (simp add: check_delete_message_iff dict_keys_def set_eq_subset)
qed

subsection \<open>\<^verbatim>\<open>check_update_message\<close>\<close>

text \<open>
  Claim C5.  \<^verbatim>\<open>check_update_message\<close> succeeds exactly when the base check passes,
  \<^verbatim>\<open>user_id\<close> is \<^verbatim>\<open>None\<close> for an embedded-only update and passes
  \<^verbatim>\<open>isinstance(_, int)\<close> otherwise, \<^verbatim>\<open>rendering_only\<close> equals the flag, and the key set is
  the base set extended by the field group of every flag that is true.  So an embedded-only
  update with a \<^verbatim>\<open>user_id\<close> other than \<^verbatim>\<open>None\<close> fails, and so does an accepted event with
  one more key.  When the event model declares \<^verbatim>\<open>user_id\<close> strictly as an integer or
  \<^verbatim>\<open>None\<close>, the \<^verbatim>\<open>user_id\<close> of an accepted update that is not embedded-only is an integer
  proper.
\<close>

theorem check_update_message_iff:
  "(fst (check_update_message et z var_name event is_stream_message has_content has_topic
          has_new_stream_id is_embedded_update_only w) = Inr ()
      \<longleftrightarrow>
      validate_with_model event (EventUpdateMessage et) = Inr ()
      \<and> (\<exists>u. map_of event ''user_id'' = Some u
             \<and> (if is_embedded_update_only then u = VNone else isinstance u [Cint]))
      \<and> (\<exists>r. map_of event ''rendering_only'' = Some r \<and> eq_bool r is_embedded_update_only)
      \<and> dict_keys event =
          {''id'', ''type'', ''user_id'', ''edit_timestamp'', ''message_id'', ''flags'',
           ''message_ids'', ''rendering_only''}
          \<union> (if is_stream_message then {''stream_id'', ''stream_name''} else {})
          \<union> (if has_content
              then {''is_me_message'', ''orig_content'', ''orig_rendered_content'', ''content'',
                    ''rendered_content''}
              else {})
          \<union> (if has_topic
              then {''topic_links'', ORIG_TOPIC z, TOPIC_NAME z, ''propagate_mode''}
              else {})
          \<union> (if has_new_stream_id
              then {''new_stream_id'', ORIG_TOPIC z, ''propagate_mode''}
              else {})
          \<union> (if is_embedded_update_only then {''content'', ''rendered_content''} else {}))
   \<and> (is_embedded_update_only \<and> map_of event ''user_id'' \<noteq> Some VNone \<longrightarrow>
        fst (check_update_message et z var_name event is_stream_message has_content has_topic
               has_new_stream_id is_embedded_update_only w) \<noteq> Inr ())
   \<and> (fst (check_update_message et z var_name event is_stream_message has_content has_topic
               has_new_stream_id is_embedded_update_only w) = Inr ()
        \<and> k \<notin> dict_keys event \<longrightarrow>
        fst (check_update_message et z var_name ((k, v) # event) is_stream_message has_content
               has_topic has_new_stream_id is_embedded_update_only w) \<noteq> Inr ())
   \<and> (fst (check_update_message et z var_name event is_stream_message has_content has_topic
               has_new_stream_id is_embedded_update_only w) = Inr ()
        \<and> \<not> is_embedded_update_only
        \<and> EventUpdateMessage et = strict_model name decls
        \<and> (''user_id'', TUnion [TInt, TNone], req) \<in> set decls \<longrightarrow>
        (\<exists>n. map_of event ''user_id'' = Some (VInt n)))"
proof -
  let ?R = "\<lambda>ev. fst (check_update_message et z var_name ev is_stream_message has_content
          has_topic has_new_stream_id is_embedded_update_only w)"
  have iff: "\<And>ev. ?R ev = Inr () \<longleftrightarrow>
      validate_with_model ev (EventUpdateMessage et) = Inr ()
      \<and> (\<exists>u. map_of ev ''user_id'' = Some u
             \<and> (if is_embedded_update_only then u = VNone else isinstance u [Cint]))
      \<and> (\<exists>r. map_of ev ''rendering_only'' = Some r \<and> eq_bool r is_embedded_update_only)
      \<and> dict_keys ev = update_message_expected_keys z is_stream_message has_content has_topic
           has_new_stream_id is_embedded_update_only"
    unfolding check_update_message_def after_make_checker_ok update_message_checks_def
      getitem_def py_assert_def
    by (auto split: option.splits)
  have a: "is_embedded_update_only \<and> map_of event ''user_id'' \<noteq> Some VNone \<longrightarrow>
      ?R event \<noteq> Inr ()"
    unfolding iff by auto
  have b: "?R event = Inr () \<and> k \<notin> dict_keys event \<longrightarrow> ?R ((k, v) # event) \<noteq> Inr ()"
    unfolding iff by (auto simp: dict_keys_def)
  have c: "?R event = Inr () \<and> \<not> is_embedded_update_only
        \<and> EventUpdateMessage et = strict_model name decls
        \<and> (''user_id'', TUnion [TInt, TNone], req) \<in> set decls \<longrightarrow>
        (\<exists>n. map_of event ''user_id'' = Some (VInt n))"
  proof (intro impI, elim conjE)
    assume ok: "?R event = Inr ()" and ne: "\<not> is_embedded_update_only"
      and sm: "EventUpdateMessage et = strict_model name decls"
      and d: "(''user_id'', TUnion [TInt, TNone], req) \<in> set decls"
    from ok obtain u where v: "validate_with_model event (EventUpdateMessage et) = Inr ()"
      and u: "map_of event ''user_id'' = Some u" and i: "isinstance u [Cint]"
      unfolding iff using ne by auto
    from v sm have v': "validate_with_model event (strict_model name decls) = Inr ()"
      by simp
    have "conforms (TUnion [TInt, TNone]) u"
      by (rule strict_model_field [OF v' d u])
    with i show "\<exists>n. map_of event ''user_id'' = Some (VInt n)"
      using u by (cases u) (auto simp: isinstance_def issubclass_def)
  qed
  show ?thesis
    using iff [of event] a b c
    unfolding update_message_expected_keys_def by blast
qed

theorem check_update_message_iff_witness:
  "fst (check_update_message ex_event_types ex_zerver ''label''
          [(''id'', VInt 1), (''type'', VStr ''update_message''), (''user_id'', VNone),
           (''edit_timestamp'', VInt 1700000000), (''message_id'', VInt 10),
           (''flags'', VList []), (''message_ids'', VList [VInt 10]),
           (''rendering_only'', VBool True), (''content'', VStr ''hi''),
           (''rendered_content'', VStr ''<p>hi</p>'')]
          False False False False True w0) = Inr ()
   \<and> fst (check_update_message ex_event_types ex_zerver ''label''
          [(''id'', VInt 1), (''type'', VStr ''update_message''), (''user_id'', VInt 5),
           (''edit_timestamp'', VInt 1700000000), (''message_id'', VInt 10),
           (''flags'', VList []), (''message_ids'', VList [VInt 10]),
           (''rendering_only'', VBool True), (''content'', VStr ''hi''),
           (''rendered_content'', VStr ''<p>hi</p>'')]
          False False False False True w0) \<noteq> Inr ()
   \<and> fst (check_update_message ex_event_types ex_zerver ''label''
          ((''stream_id'', VInt 3) #
           [(''id'', VInt 1), (''type'', VStr ''update_message''), (''user_id'', VNone),
            (''edit_timestamp'', VInt 1700000000), (''message_id'', VInt 10),
            (''flags'', VList []), (''message_ids'', VList [VInt 10]),
            (''rendering_only'', VBool True), (''content'', VStr ''hi''),
            (''rendered_content'', VStr ''<p>hi</p>'')])
          False False False False True w0) \<noteq> Inr ()
   \<and> fst (check_update_message ex_event_types ex_zerver ''label''
          [(''id'', VInt 1), (''type'', VStr ''update_message''), (''user_id'', VInt 5),
           (''edit_timestamp'', VInt 1700000000), (''message_id'', VInt 10),
           (''flags'', VList []), (''message_ids'', VList [VInt 10]),
           (''rendering_only'', VBool False), (''stream_id'', VInt 3),
           (''stream_name'', VStr ''general''), (''topic_links'', VList []),
           (''orig_subject'', VStr ''old''), (''subject'', VStr ''new''),
           (''propagate_mode'', VStr ''change_all'')]
          True False True False False w0) = Inr ()
   \<and> (\<exists>n. map_of
          [(''id'', VInt 1), (''type'', VStr ''update_message''), (''user_id'', VInt 5),
           (''edit_timestamp'', VInt 1700000000), (''message_id'', VInt 10),
           (''flags'', VList []), (''message_ids'', VList [VInt 10]),
           (''rendering_only'', VBool False), (''stream_id'', VInt 3),
           (''stream_name'', VStr ''general''), (''topic_links'', VList []),
           (''orig_subject'', VStr ''old''), (''subject'', VStr ''new''),
           (''propagate_mode'', VStr ''change_all'')] ''user_id'' = Some (VInt n))"
proof -
  have v1: "validate_with_model
          [(''id'', VInt 1), (''type'', VStr ''update_message''), (''user_id'', VNone),
           (''edit_timestamp'', VInt 1700000000), (''message_id'', VInt 10),
           (''flags'', VList []), (''message_ids'', VList [VInt 10]),
           (''rendering_only'', VBool True), (''content'', VStr ''hi''),
           (''rendered_content'', VStr ''<p>hi</p>'')] ex_EventUpdateMessage = Inr ()"
    by (simp add: val_defs ex_EventUpdateMessage_def)
  have v2: "validate_with_model
          [(''id'', VInt 1), (''type'', VStr ''update_message''), (''user_id'', VInt 5),
           (''edit_timestamp'', VInt 1700000000), (''message_id'', VInt 10),
           (''flags'', VList []), (''message_ids'', VList [VInt 10]),
           (''rendering_only'', VBool False), (''stream_id'', VInt 3),
           (''stream_name'', VStr ''general''), (''topic_links'', VList []),
           (''orig_subject'', VStr ''old''), (''subject'', VStr ''new''),
           (''propagate_mode'', VStr ''change_all'')] ex_EventUpdateMessage = Inr ()"
    by (simp add: val_defs ex_EventUpdateMessage_def)
  note inst = check_update_message_iff [of ex_event_types ex_zerver "''label''" _
      _ _ _ _ _ w0 "''stream_id''" "VInt 3" "''EventUpdateMessage''" "[]" True]
  have r1: "fst (check_update_message ex_event_types ex_zerver ''label''
          [(''id'', VInt 1), (''type'', VStr ''update_message''), (''user_id'', VNone),
           (''edit_timestamp'', VInt 1700000000), (''message_id'', VInt 10),
           (''flags'', VList []), (''message_ids'', VList [VInt 10]),
           (''rendering_only'', VBool True), (''content'', VStr ''hi''),
           (''rendered_content'', VStr ''<p>hi</p>'')]
          False False False False True w0) = Inr ()"
    using v1 by (simp add: inst [THEN conjunct1] chk_defs)
  have r2: "fst (check_update_message ex_event_types ex_zerver ''label''
          [(''id'', VInt 1), (''type'', VStr ''update_message''), (''user_id'', VInt 5),
           (''edit_timestamp'', VInt 1700000000), (''message_id'', VInt 10),
           (''flags'', VList []), (''message_ids'', VList [VInt 10]),
           (''rendering_only'', VBool True), (''content'', VStr ''hi''),
           (''rendered_content'', VStr ''<p>hi</p>'')]
          False False False False True w0) \<noteq> Inr ()"
    by (rule inst [THEN conjunct2, THEN conjunct1, rule_format]) simp
  have r3: "fst (check_update_message ex_event_types ex_zerver ''label''
          ((''stream_id'', VInt 3) #
           [(''id'', VInt 1), (''type'', VStr ''update_message''), (''user_id'', VNone),
            (''edit_timestamp'', VInt 1700000000), (''message_id'', VInt 10),
            (''flags'', VList []), (''message_ids'', VList [VInt 10]),
            (''rendering_only'', VBool True), (''content'', VStr ''hi''),
            (''rendered_content'', VStr ''<p>hi</p>'')])
          False False False False True w0) \<noteq> Inr ()"
    by (rule inst [THEN conjunct2, THEN conjunct2, THEN conjunct1, rule_format])
       (simp add: r1 dict_keys_def)
  have r4: "fst (check_update_message ex_event_types ex_zerver ''label''
          [(''id'', VInt 1), (''type'', VStr ''update_message''), (''user_id'', VInt 5),
           (''edit_timestamp'', VInt 1700000000), (''message_id'', VInt 10),
           (''flags'', VList []), (''message_ids'', VList [VInt 10]),
           (''rendering_only'', VBool False), (''stream_id'', VInt 3),
           (''stream_name'', VStr ''general''), (''topic_links'', VList []),
           (''orig_subject'', VStr ''old''), (''subject'', VStr ''new''),
           (''propagate_mode'', VStr ''change_all'')]
          True False True False False w0) = Inr ()"
    using v2 by (simp add: inst [THEN conjunct1] chk_defs)
  have r5: "\<exists>n. map_of
          [(''id'', VInt 1), (''type'', VStr ''update_message''), (''user_id'', VInt 5),
           (''edit_timestamp'', VInt 1700000000), (''message_id'', VInt 10),
           (''flags'', VList []), (''message_ids'', VList [VInt 10]),
           (''rendering_only'', VBool False), (''stream_id'', VInt 3),
           (''stream_name'', VStr ''general''), (''topic_links'', VList []),
           (''orig_subject'', VStr ''old''), (''subject'', VStr ''new''),
           (''propagate_mode'', VStr ''change_all'')] ''user_id'' = Some (VInt n)"
    by (rule check_update_message_iff [of ex_event_types ex_zerver "''label''" _
          True False True False False w0 "''k''" VNone "''EventUpdateMessage''"
          "[(''id'', TInt, True),
            (''type'', TLiteral [VStr ''update_message''], True),
            (''user_id'', TUnion [TInt, TNone], True),
            (''edit_timestamp'', TInt, True),
            (''message_id'', TInt, True),
            (''flags'', TList TStr, True),
            (''message_ids'', TList TInt, True),
            (''rendering_only'', TBool, True),
            (''stream_id'', TInt, False),
            (''stream_name'', TStr, False),
            (''is_me_message'', TBool, False),
            (''orig_content'', TStr, False),
            (''orig_rendered_content'', TStr, False),
            (''content'', TStr, False),
            (''rendered_content'', TStr, False),
            (''topic_links'', TList TAny, False),
            (''subject'', TStr, False),
            (''orig_subject'', TStr, False),
            (''propagate_mode'', TStr, False),
            (''new_stream_id'', TInt, False)]" True,
          THEN conjunct2, THEN conjunct2, THEN conjunct2, rule_format])
       (simp add: r4 ex_EventUpdateMessage_def)
  from r1 r2 r3 r4 r5 show ?thesis by blast
qed

subsection \<open>\<^verbatim>\<open>check_muted_topics\<close>\<close>

lemma type_of_Cstr: "type_of v = Cstr \<longleftrightarrow> (\<exists>a. v = VStr a)"
  by (cases v) simp_all

lemma type_of_Cint: "type_of v = Cint \<longleftrightarrow> (\<exists>n. v = VInt n)"
  by (cases v) simp_all

lemma py_tuple_triple:
  "(\<exists>t. py_tuple e = Inr t \<and> map type_of t = [Cstr, Cstr, Cint]) \<longleftrightarrow>
     (\<exists>a b n. e = VList [VStr a, VStr b, VInt n] \<or> e = VTuple [VStr a, VStr b, VInt n])"
  by (cases e) (auto simp: map_eq_Cons_conv type_of_Cstr type_of_Cint)

lemma muted_topics_loop_ok:
  "muted_topics_loop ts = Inr () \<longleftrightarrow>
     (\<forall>e\<in>set ts. \<exists>a b n. e = VList [VStr a, VStr b, VInt n] \<or> e = VTuple [VStr a, VStr b, VInt n])"
proof (induction ts)
  case Nil
  show ?case by simp
next
  case (Cons e ts)
  have step: "muted_topics_loop (e # ts) = Inr () \<longleftrightarrow>
      (\<exists>t. py_tuple e = Inr t \<and> map type_of t = [Cstr, Cstr, Cint]) \<and> muted_topics_loop ts = Inr ()"
    by (simp split: sum.splits)
  show ?case
    unfolding step py_tuple_triple Cons.IH by simp
qed

text \<open>
  Claim C7.  \<^verbatim>\<open>check_muted_topics\<close> succeeds exactly when the base check passes and
  \<^verbatim>\<open>muted_topics\<close> is a list whose every entry is a sequence (a list or a tuple) of three
  elements of the exact types string, string, integer, in that order.  The entry
  \<^verbatim>\<open>("general", "topic", "not-an-int")\<close> fails and \<^verbatim>\<open>("general", "topic", 123)\<close> succeeds.
\<close>

theorem check_muted_topics_iff:
  "fst (check_muted_topics et var_name event w) = Inr () \<longleftrightarrow>
     validate_with_model event (EventMutedTopics et) = Inr ()
     \<and> (\<exists>ts. map_of event ''muted_topics'' = Some (VList ts)
            \<and> (\<forall>e\<in>set ts. \<exists>a b n. e = VList [VStr a, VStr b, VInt n]
                               \<or> e = VTuple [VStr a, VStr b, VInt n]))"
  unfolding check_muted_topics_def after_make_checker_ok muted_topics_checks_def getitem_def
  by (auto simp: muted_topics_loop_ok split: option.splits pyval.splits)

theorem check_muted_topics_iff_witness:
  "fst (check_muted_topics ex_event_types ''label''
          [(''id'', VInt 1), (''type'', VStr ''muted_topics''),
           (''muted_topics'', VList [VTuple [VStr ''general'', VStr ''topic'', VInt 123]])] w0)
     = Inr ()
   \<and> fst (check_muted_topics ex_event_types ''label''
          [(''id'', VInt 1), (''type'', VStr ''muted_topics''),
           (''muted_topics'',
              VList [VTuple [VStr ''general'', VStr ''topic'', VStr ''not-an-int'']])] w0)
     \<noteq> Inr ()"
proof -
  have v1: "validate_with_model
          [(''id'', VInt 1), (''type'', VStr ''muted_topics''),
           (''muted_topics'', VList [VTuple [VStr ''general'', VStr ''topic'', VInt 123]])]
          ex_EventMutedTopics = Inr ()"
    by (simp add: val_defs ex_EventMutedTopics_def)
  show ?thesis
    using v1 by (simp add: check_muted_topics_iff)
qed

subsection \<open>\<^verbatim>\<open>check_realm_bot_add\<close>\<close>

lemma length_one: "length xs = Suc 0 \<longleftrightarrow> (\<exists>x. xs = [x])"
  by (cases xs) auto

lemma validate_object_ok:
  "validate_object_with_model v m = Inr () \<longleftrightarrow>
     (\<exists>s. v = VDict s \<and> validate_with_model s m = Inr ())"
  by (cases v) (simp_all add: validate_object_with_model_def)

lemma one_service_ok:
  "one_service services m = Inr () \<longleftrightarrow>
     (\<exists>s. (services = VList [VDict s] \<or> services = VTuple [VDict s])
          \<and> validate_with_model s m = Inr ())"
proof (cases services)
  case (VList xs)
  then show ?thesis
    by (auto simp: one_service_def validate_object_ok length_one split: list.splits)
next
  case (VTuple xs)
  then show ?thesis
    by (auto simp: one_service_def validate_object_ok length_one split: list.splits)
next
  case (VStr s)
  then show ?thesis
    by (auto simp: one_service_def validate_object_ok length_one split: list.splits)
qed (simp_all add: one_service_def)

text \<open>
  Claim C4.  \<^verbatim>\<open>check_realm_bot_add\<close> succeeds exactly when the base check passes, the bot
  is a dictionary with a \<^verbatim>\<open>bot_type\<close> and \<^verbatim>\<open>services\<close>, and: for the default bot type
  \<^verbatim>\<open>services\<close> is the empty list; for the outgoing-webhook (embedded) bot type
  \<^verbatim>\<open>services\<close> has exactly one entry, a dictionary that \<^verbatim>\<open>validate_with_model\<close> accepts
  for \<^verbatim>\<open>BotServicesOutgoing\<close> (\<^verbatim>\<open>BotServicesEmbedded\<close>).  A \<^verbatim>\<open>bot_type\<close> equal to none of
  the three constants raises the \<^verbatim>\<open>AssertionError\<close> "Unknown bot_type".
\<close>

theorem check_realm_bot_add_iff:
  "(fst (check_realm_bot_add et z var_name event w) = Inr () \<longleftrightarrow>
      validate_with_model event (EventRealmBotAdd et) = Inr ()
      \<and> (\<exists>b bot_type services.
            map_of event ''bot'' = Some (VDict b)
            \<and> map_of b ''bot_type'' = Some bot_type
            \<and> map_of b ''services'' = Some services
            \<and> (if eq_int bot_type (UserProfile_DEFAULT_BOT z) then services = VList []
                else if eq_int bot_type (UserProfile_OUTGOING_WEBHOOK_BOT z)
                then \<exists>s. (services = VList [VDict s] \<or> services = VTuple [VDict s])
                        \<and> validate_with_model s (BotServicesOutgoing et) = Inr ()
                else if eq_int bot_type (UserProfile_EMBEDDED_BOT z)
                then \<exists>s. (services = VList [VDict s] \<or> services = VTuple [VDict s])
                        \<and> validate_with_model s (BotServicesEmbedded et) = Inr ()
                else False)))
   \<and> (validate_with_model event (EventRealmBotAdd et) = Inr ()
        \<and> map_of event ''bot'' = Some (VDict b)
        \<and> map_of b ''bot_type'' = Some bot_type
        \<and> map_of b ''services'' = Some services
        \<and> \<not> eq_int bot_type (UserProfile_DEFAULT_BOT z)
        \<and> \<not> eq_int bot_type (UserProfile_OUTGOING_WEBHOOK_BOT z)
        \<and> \<not> eq_int bot_type (UserProfile_EMBEDDED_BOT z) \<longrightarrow>
        fst (check_realm_bot_add et z var_name event w)
          = Inl (AssertionError (MsgVal ''Unknown bot_type: '' bot_type)))"
proof (intro conjI)
  show "fst (check_realm_bot_add et z var_name event w) = Inr () \<longleftrightarrow>
      validate_with_model event (EventRealmBotAdd et) = Inr ()
      \<and> (\<exists>b bot_type services.
            map_of event ''bot'' = Some (VDict b)
            \<and> map_of b ''bot_type'' = Some bot_type
            \<and> map_of b ''services'' = Some services
            \<and> (if eq_int bot_type (UserProfile_DEFAULT_BOT z) then services = VList []
                else if eq_int bot_type (UserProfile_OUTGOING_WEBHOOK_BOT z)
                then \<exists>s. (services = VList [VDict s] \<or> services = VTuple [VDict s])
                        \<and> validate_with_model s (BotServicesOutgoing et) = Inr ()
                else if eq_int bot_type (UserProfile_EMBEDDED_BOT z)
                then \<exists>s. (services = VList [VDict s] \<or> services = VTuple [VDict s])
                        \<and> validate_with_model s (BotServicesEmbedded et) = Inr ()
                else False))"
    unfolding check_realm_bot_add_def after_make_checker_ok realm_bot_add_checks_def
      getitem_def py_assert_def
    by (simp add: one_service_ok split: option.splits pyval.splits)
next
  show "validate_with_model event (EventRealmBotAdd et) = Inr ()
        \<and> map_of event ''bot'' = Some (VDict b)
        \<and> map_of b ''bot_type'' = Some bot_type
        \<and> map_of b ''services'' = Some services
        \<and> \<not> eq_int bot_type (UserProfile_DEFAULT_BOT z)
        \<and> \<not> eq_int bot_type (UserProfile_OUTGOING_WEBHOOK_BOT z)
        \<and> \<not> eq_int bot_type (UserProfile_EMBEDDED_BOT z) \<longrightarrow>
        fst (check_realm_bot_add et z var_name event w)
          = Inl (AssertionError (MsgVal ''Unknown bot_type: '' bot_type))"
    by (simp add: check_realm_bot_add_def fst_after_make_checker realm_bot_add_checks_def
        getitem_def)
qed


theorem check_realm_bot_add_iff_witness:
  "fst (check_realm_bot_add ex_event_types ex_zerver ''label''
          [(''id'', VInt 1), (''type'', VStr ''realm_bot''), (''op'', VStr ''add''),
           (''bot'', VDict [(''user_id'', VInt 5), (''full_name'', VStr ''helper''),
                            (''bot_type'', VInt 1), (''services'', VList [])])] w0) = Inr ()
   \<and> fst (check_realm_bot_add ex_event_types ex_zerver ''label''
          [(''id'', VInt 1), (''type'', VStr ''realm_bot''), (''op'', VStr ''add''),
           (''bot'', VDict [(''user_id'', VInt 5), (''full_name'', VStr ''helper''),
                            (''bot_type'', VInt 1), (''services'', VList [
              VDict [(''base_url'', VStr ''http://example.com''), (''interface'', VInt 1), (''token'', VStr ''abc'')]])])] w0) \<noteq> Inr ()
   \<and> fst (check_realm_bot_add ex_event_types ex_zerver ''label''
          [(''id'', VInt 1), (''type'', VStr ''realm_bot''), (''op'', VStr ''add''),
           (''bot'', VDict [(''user_id'', VInt 5), (''full_name'', VStr ''helper''),
                            (''bot_type'', VInt 3), (''services'', VList [
              VDict [(''base_url'', VStr ''http://example.com''), (''interface'', VInt 1), (''token'', VStr ''abc'')],
              VDict [(''base_url'', VStr ''http://example.com''), (''interface'', VInt 1), (''token'', VStr ''abc'')]])])] w0) \<noteq> Inr ()
   \<and> fst (check_realm_bot_add ex_event_types ex_zerver ''label''
          [(''id'', VInt 1), (''type'', VStr ''realm_bot''), (''op'', VStr ''add''),
           (''bot'', VDict [(''user_id'', VInt 5), (''full_name'', VStr ''helper''),
                            (''bot_type'', VInt 3), (''services'', VList [
              VDict [(''base_url'', VStr ''http://example.com''), (''interface'', VInt 1), (''token'', VStr ''abc'')]])])] w0) = Inr ()
   \<and> fst (check_realm_bot_add ex_event_types ex_zerver ''label''
          [(''id'', VInt 1), (''type'', VStr ''realm_bot''), (''op'', VStr ''add''),
           (''bot'', VDict [(''user_id'', VInt 5), (''full_name'', VStr ''helper''),
                            (''bot_type'', VInt 2), (''services'', VList [])])] w0) = Inl (AssertionError (MsgVal ''Unknown bot_type: '' (VInt 2)))"
proof -
  have v1: "validate_with_model
          [(''id'', VInt 1), (''type'', VStr ''realm_bot''), (''op'', VStr ''add''),
           (''bot'', VDict [(''user_id'', VInt 5), (''full_name'', VStr ''helper''),
                            (''bot_type'', VInt 1), (''services'', VList [])])] ex_EventRealmBotAdd = Inr ()"
    by (simp add: val_defs ex_EventRealmBotAdd_def)
  have v4: "validate_with_model
          [(''id'', VInt 1), (''type'', VStr ''realm_bot''), (''op'', VStr ''add''),
           (''bot'', VDict [(''user_id'', VInt 5), (''full_name'', VStr ''helper''),
                            (''bot_type'', VInt 3), (''services'', VList [
              VDict [(''base_url'', VStr ''http://example.com''), (''interface'', VInt 1), (''token'', VStr ''abc'')]])])] ex_EventRealmBotAdd = Inr ()"
    by (simp add: val_defs ex_EventRealmBotAdd_def)
  have v5: "validate_with_model
          [(''id'', VInt 1), (''type'', VStr ''realm_bot''), (''op'', VStr ''add''),
           (''bot'', VDict [(''user_id'', VInt 5), (''full_name'', VStr ''helper''),
                            (''bot_type'', VInt 2), (''services'', VList [])])] ex_EventRealmBotAdd = Inr ()"
    by (simp add: val_defs ex_EventRealmBotAdd_def)
  have s1: "validate_with_model
          [(''base_url'', VStr ''http://example.com''), (''interface'', VInt 1),
           (''token'', VStr ''abc'')] ex_BotServicesOutgoing = Inr ()"
    by (simp add: val_defs ex_BotServicesOutgoing_def)
  have r1: "fst (check_realm_bot_add ex_event_types ex_zerver ''label''
          [(''id'', VInt 1), (''type'', VStr ''realm_bot''), (''op'', VStr ''add''),
           (''bot'', VDict [(''user_id'', VInt 5), (''full_name'', VStr ''helper''),
                            (''bot_type'', VInt 1), (''services'', VList [])])] w0) = Inr ()"
    using v1 by (simp add: check_realm_bot_add_iff [THEN conjunct1])
  have r2: "fst (check_realm_bot_add ex_event_types ex_zerver ''label''
          [(''id'', VInt 1), (''type'', VStr ''realm_bot''), (''op'', VStr ''add''),
           (''bot'', VDict [(''user_id'', VInt 5), (''full_name'', VStr ''helper''),
                            (''bot_type'', VInt 1), (''services'', VList [
              VDict [(''base_url'', VStr ''http://example.com''), (''interface'', VInt 1), (''token'', VStr ''abc'')]])])] w0) \<noteq> Inr ()"
    by (simp add: check_realm_bot_add_iff [THEN conjunct1])
  have r3: "fst (check_realm_bot_add ex_event_types ex_zerver ''label''
          [(''id'', VInt 1), (''type'', VStr ''realm_bot''), (''op'', VStr ''add''),
           (''bot'', VDict [(''user_id'', VInt 5), (''full_name'', VStr ''helper''),
                            (''bot_type'', VInt 3), (''services'', VList [
              VDict [(''base_url'', VStr ''http://example.com''), (''interface'', VInt 1), (''token'', VStr ''abc'')],
              VDict [(''base_url'', VStr ''http://example.com''), (''interface'', VInt 1), (''token'', VStr ''abc'')]])])] w0) \<noteq> Inr ()"
    by (simp add: check_realm_bot_add_iff [THEN conjunct1])
  have r4: "fst (check_realm_bot_add ex_event_types ex_zerver ''label''
          [(''id'', VInt 1), (''type'', VStr ''realm_bot''), (''op'', VStr ''add''),
           (''bot'', VDict [(''user_id'', VInt 5), (''full_name'', VStr ''helper''),
                            (''bot_type'', VInt 3), (''services'', VList [
              VDict [(''base_url'', VStr ''http://example.com''), (''interface'', VInt 1), (''token'', VStr ''abc'')]])])] w0) = Inr ()"
    using v4 s1 by (simp add: check_realm_bot_add_iff [THEN conjunct1])
  have r5: "fst (check_realm_bot_add ex_event_types ex_zerver ''label''
          [(''id'', VInt 1), (''type'', VStr ''realm_bot''), (''op'', VStr ''add''),
           (''bot'', VDict [(''user_id'', VInt 5), (''full_name'', VStr ''helper''),
                            (''bot_type'', VInt 2), (''services'', VList [])])] w0) = Inl (AssertionError (MsgVal ''Unknown bot_type: '' (VInt 2)))"
    by (rule check_realm_bot_add_iff
          [where b = "[(''user_id'', VInt 5), (''full_name'', VStr ''helper''),
                       (''bot_type'', VInt 2), (''services'', VList [])]"
             and services = "VList []", THEN conjunct2, rule_format])
       (simp add: v5)
  from r1 r2 r3 r4 r5 show ?thesis by blast
qed

subsection \<open>\<^verbatim>\<open>check_realm_update_dict\<close>\<close>

lemma realm_update_dict_default:
  assumes "map_of event ''property'' = Some (VStr ''default'')"
    and "map_of event ''data'' = Some (VDict d)"
  shows "realm_update_dict_checks et z event =
     (case spec_first_match et z d of
        None \<Rightarrow> Inl (AssertionError (Msg ''unhandled fields in data''))
      | Some m \<Rightarrow> validate_with_model d m)"
  using assms
  by (simp add: realm_update_dict_checks_def realm_update_dict_sub_type_def getitem_def
      eq_str_def spec_first_match_def spec_default_priority_def validate_object_with_model_def)

text \<open>
  Claim C6.  In \<^verbatim>\<open>check_realm_update_dict\<close>, once the base check has passed: when
  \<^verbatim>\<open>property\<close> is \<^verbatim>\<open>"default"\<close> the \<^verbatim>\<open>data\<close> dictionary is validated against the schema of
  the first matching key in the fixed order \<^verbatim>\<open>allow_message_editing\<close>,
  \<^verbatim>\<open>message_content_edit_limit_seconds\<close>, \<^verbatim>\<open>authentication_methods\<close>, any permission-group
  setting name, \<^verbatim>\<open>plan_type\<close>, \<^verbatim>\<open>topics_policy\<close>, and with none of them the checker raises
  \<^verbatim>\<open>AssertionError\<close>; \<^verbatim>\<open>"icon"\<close>, \<^verbatim>\<open>"logo"\<close> and \<^verbatim>\<open>"night_logo"\<close> select their fixed
  schemas; any other property raises \<^verbatim>\<open>AssertionError\<close>.
\<close>

theorem check_realm_update_dict_dispatch:
  "validate_with_model event (EventRealmUpdateDict et) = Inr () \<longrightarrow>
     (map_of event ''property'' = Some (VStr ''default'') \<longrightarrow>
        (\<forall>d. map_of event ''data'' = Some (VDict d) \<longrightarrow>
           fst (check_realm_update_dict et z var_name event w) =
             (case spec_first_match et z d of
                None \<Rightarrow> Inl (AssertionError (Msg ''unhandled fields in data''))
              | Some m \<Rightarrow> validate_with_model d m)))
     \<and> (\<forall>dv. map_of event ''data'' = Some dv \<longrightarrow>
          (map_of event ''property'' = Some (VStr ''icon'') \<longrightarrow>
             fst (check_realm_update_dict et z var_name event w)
               = validate_object_with_model dv (IconData et))
          \<and> (map_of event ''property'' = Some (VStr ''logo'') \<longrightarrow>
             fst (check_realm_update_dict et z var_name event w)
               = validate_object_with_model dv (LogoData et))
          \<and> (map_of event ''property'' = Some (VStr ''night_logo'') \<longrightarrow>
             fst (check_realm_update_dict et z var_name event w)
               = validate_object_with_model dv (NightLogoData et)))
     \<and> (\<forall>p. map_of event ''property'' = Some p
            \<and> p \<notin> {VStr ''default'', VStr ''icon'', VStr ''logo'', VStr ''night_logo''} \<longrightarrow>
          fst (check_realm_update_dict et z var_name event w)
            = Inl (AssertionError (Msg ''unhandled property'')))"
proof (intro impI conjI allI)
  fix d
  assume "validate_with_model event (EventRealmUpdateDict et) = Inr ()"
    and "map_of event ''property'' = Some (VStr ''default'')"
    and "map_of event ''data'' = Some (VDict d)"
  then show "fst (check_realm_update_dict et z var_name event w) =
      (case spec_first_match et z d of
         None \<Rightarrow> Inl (AssertionError (Msg ''unhandled fields in data''))
       | Some m \<Rightarrow> validate_with_model d m)"
    by (simp add: check_realm_update_dict_def fst_after_make_checker realm_update_dict_default)
next
  fix dv
  assume "validate_with_model event (EventRealmUpdateDict et) = Inr ()"
    and "map_of event ''data'' = Some dv"
    and "map_of event ''property'' = Some (VStr ''icon'')"
  then show "fst (check_realm_update_dict et z var_name event w)
      = validate_object_with_model dv (IconData et)"
    by (simp add: check_realm_update_dict_def fst_after_make_checker realm_update_dict_checks_def
        realm_update_dict_sub_type_def getitem_def eq_str_def)
next
  fix dv
  assume "validate_with_model event (EventRealmUpdateDict et) = Inr ()"
    and "map_of event ''data'' = Some dv"
    and "map_of event ''property'' = Some (VStr ''logo'')"
  then show "fst (check_realm_update_dict et z var_name event w)
      = validate_object_with_model dv (LogoData et)"
    by (simp add: check_realm_update_dict_def fst_after_make_checker realm_update_dict_checks_def
        realm_update_dict_sub_type_def getitem_def eq_str_def)
next
  fix dv
  assume "validate_with_model event (EventRealmUpdateDict et) = Inr ()"
    and "map_of event ''data'' = Some dv"
    and "map_of event ''property'' = Some (VStr ''night_logo'')"
  then show "fst (check_realm_update_dict et z var_name event w)
      = validate_object_with_model dv (NightLogoData et)"
    by (simp add: check_realm_update_dict_def fst_after_make_checker realm_update_dict_checks_def
        realm_update_dict_sub_type_def getitem_def eq_str_def)
next
  fix p
  assume "validate_with_model event (EventRealmUpdateDict et) = Inr ()"
    and "map_of event ''property'' = Some p
         \<and> p \<notin> {VStr ''default'', VStr ''icon'', VStr ''logo'', VStr ''night_logo''}"
  then show "fst (check_realm_update_dict et z var_name event w)
      = Inl (AssertionError (Msg ''unhandled property''))"
    by (simp add: check_realm_update_dict_def fst_after_make_checker realm_update_dict_checks_def
        realm_update_dict_sub_type_def getitem_def eq_str_def)
qed

theorem check_realm_update_dict_dispatch_witness:
  "fst (check_realm_update_dict ex_event_types ex_zerver ''label''
          [(''id'', VInt 1), (''type'', VStr ''realm''), (''op'', VStr ''update_dict''),
           (''property'', VStr ''default''),
           (''data'', VDict [(''plan_type'', VInt 1), (''allow_message_editing'', VBool True)])] w0)
       = Inl (ValueError {''plan_type''})
   \<and> fst (check_realm_update_dict ex_event_types ex_zerver ''label''
          [(''id'', VInt 1), (''type'', VStr ''realm''), (''op'', VStr ''update_dict''),
           (''property'', VStr ''default''),
           (''data'', VDict [(''plan_type'', VInt 1), (''upload_quota_mib'', VNone)])] w0)
       = Inr ()
   \<and> fst (check_realm_update_dict ex_event_types ex_zerver ''label''
          [(''id'', VInt 1), (''type'', VStr ''realm''), (''op'', VStr ''update_dict''),
           (''property'', VStr ''default''),
           (''data'', VDict [(''other'', VInt 1)])] w0)
       = Inl (AssertionError (Msg ''unhandled fields in data''))
   \<and> fst (check_realm_update_dict ex_event_types ex_zerver ''label''
          [(''id'', VInt 1), (''type'', VStr ''realm''), (''op'', VStr ''update_dict''),
           (''property'', VStr ''icon''),
           (''data'', VDict [(''icon_url'', VStr ''u''), (''icon_source'', VStr ''G'')])] w0)
       = Inr ()
   \<and> fst (check_realm_update_dict ex_event_types ex_zerver ''label''
          [(''id'', VInt 1), (''type'', VStr ''realm''), (''op'', VStr ''update_dict''),
           (''property'', VStr ''banner''),
           (''data'', VDict [(''icon_url'', VStr ''u''), (''icon_source'', VStr ''G'')])] w0)
       = Inl (AssertionError (Msg ''unhandled property''))
   \<and> fst (check_realm_update_dict ex_event_types ex_zerver ''label''
          [(''id'', VInt 1), (''type'', VStr ''realm''), (''op'', VStr ''update_dict''),
           (''property'', VStr ''default''),
           (''data'', VDict [(''can_create_groups'', VInt 3)])] w0)
       = Inr ()"
proof -
  have v1: "validate_with_model
          [(''id'', VInt 1), (''type'', VStr ''realm''), (''op'', VStr ''update_dict''),
           (''property'', VStr ''default''),
           (''data'', VDict [(''plan_type'', VInt 1), (''allow_message_editing'', VBool True)])]
          (EventRealmUpdateDict ex_event_types) = Inr ()"
    by (simp add: val_defs ex_EventRealmUpdateDict_def)
  note t1 = check_realm_update_dict_dispatch [where et = ex_event_types and z = ex_zerver
      and var_name = "''label''" and w = w0 and event = "[(''id'', VInt 1), (''type'', VStr ''realm''), (''op'', VStr ''update_dict''),
        (''property'', VStr ''default''),
        (''data'', VDict [(''plan_type'', VInt 1), (''allow_message_editing'', VBool True)])]", THEN mp]
  have r1: "fst (check_realm_update_dict ex_event_types ex_zerver ''label''
          [(''id'', VInt 1), (''type'', VStr ''realm''), (''op'', VStr ''update_dict''),
           (''property'', VStr ''default''),
           (''data'', VDict [(''plan_type'', VInt 1), (''allow_message_editing'', VBool True)])] w0)
       = Inl (ValueError {''plan_type''})"
    by (simp add: t1 [THEN conjunct1, rule_format, where d = "[(''plan_type'', VInt 1), (''allow_message_editing'', VBool True)]",
          OF v1] spec_first_match_def
          spec_default_priority_def val_defs
          insert_Diff_if)
  have v2: "validate_with_model
          [(''id'', VInt 1), (''type'', VStr ''realm''), (''op'', VStr ''update_dict''),
           (''property'', VStr ''default''),
           (''data'', VDict [(''plan_type'', VInt 1), (''upload_quota_mib'', VNone)])]
          (EventRealmUpdateDict ex_event_types) = Inr ()"
    by (simp add: val_defs ex_EventRealmUpdateDict_def)
  note t2 = check_realm_update_dict_dispatch [where et = ex_event_types and z = ex_zerver
      and var_name = "''label''" and w = w0 and event = "[(''id'', VInt 1), (''type'', VStr ''realm''), (''op'', VStr ''update_dict''),
        (''property'', VStr ''default''),
        (''data'', VDict [(''plan_type'', VInt 1), (''upload_quota_mib'', VNone)])]", THEN mp]
  have r2: "fst (check_realm_update_dict ex_event_types ex_zerver ''label''
          [(''id'', VInt 1), (''type'', VStr ''realm''), (''op'', VStr ''update_dict''),
           (''property'', VStr ''default''),
           (''data'', VDict [(''plan_type'', VInt 1), (''upload_quota_mib'', VNone)])] w0)
       = Inr ()"
    by (simp add: t2 [THEN conjunct1, rule_format, where d = "[(''plan_type'', VInt 1), (''upload_quota_mib'', VNone)]",
          OF v2] spec_first_match_def
          spec_default_priority_def val_defs
          insert_Diff_if)
  have v3: "validate_with_model
          [(''id'', VInt 1), (''type'', VStr ''realm''), (''op'', VStr ''update_dict''),
           (''property'', VStr ''default''),
           (''data'', VDict [(''other'', VInt 1)])]
          (EventRealmUpdateDict ex_event_types) = Inr ()"
    by (simp add: val_defs ex_EventRealmUpdateDict_def)
  note t3 = check_realm_update_dict_dispatch [where et = ex_event_types and z = ex_zerver
      and var_name = "''label''" and w = w0 and event = "[(''id'', VInt 1), (''type'', VStr ''realm''), (''op'', VStr ''update_dict''),
        (''property'', VStr ''default''),
        (''data'', VDict [(''other'', VInt 1)])]", THEN mp]
  have r3: "fst (check_realm_update_dict ex_event_types ex_zerver ''label''
          [(''id'', VInt 1), (''type'', VStr ''realm''), (''op'', VStr ''update_dict''),
           (''property'', VStr ''default''),
           (''data'', VDict [(''other'', VInt 1)])] w0)
       = Inl (AssertionError (Msg ''unhandled fields in data''))"
    by (simp add: t3 [THEN conjunct1, rule_format, where d = "[(''other'', VInt 1)]",
          OF v3] spec_first_match_def
          spec_default_priority_def val_defs
          insert_Diff_if)
  have v4: "validate_with_model
          [(''id'', VInt 1), (''type'', VStr ''realm''), (''op'', VStr ''update_dict''),
           (''property'', VStr ''icon''),
           (''data'', VDict [(''icon_url'', VStr ''u''), (''icon_source'', VStr ''G'')])]
          (EventRealmUpdateDict ex_event_types) = Inr ()"
    by (simp add: val_defs ex_EventRealmUpdateDict_def)
  note t4 = check_realm_update_dict_dispatch [where et = ex_event_types and z = ex_zerver
      and var_name = "''label''" and w = w0 and event = "[(''id'', VInt 1), (''type'', VStr ''realm''), (''op'', VStr ''update_dict''),
        (''property'', VStr ''icon''),
        (''data'', VDict [(''icon_url'', VStr ''u''), (''icon_source'', VStr ''G'')])]", THEN mp]
  have r4: "fst (check_realm_update_dict ex_event_types ex_zerver ''label''
          [(''id'', VInt 1), (''type'', VStr ''realm''), (''op'', VStr ''update_dict''),
           (''property'', VStr ''icon''),
           (''data'', VDict [(''icon_url'', VStr ''u''), (''icon_source'', VStr ''G'')])] w0)
       = Inr ()"
    by (simp add: t4 [THEN conjunct2, THEN conjunct1, rule_format, THEN conjunct1, rule_format,
          where dv = "VDict [(''icon_url'', VStr ''u''), (''icon_source'', VStr ''G'')]",
          OF v4] spec_first_match_def
          spec_default_priority_def val_defs
          insert_Diff_if)
  have v5: "validate_with_model
          [(''id'', VInt 1), (''type'', VStr ''realm''), (''op'', VStr ''update_dict''),
           (''property'', VStr ''banner''),
           (''data'', VDict [(''icon_url'', VStr ''u''), (''icon_source'', VStr ''G'')])]
          (EventRealmUpdateDict ex_event_types) = Inr ()"
    by (simp add: val_defs ex_EventRealmUpdateDict_def)
  note t5 = check_realm_update_dict_dispatch [where et = ex_event_types and z = ex_zerver
      and var_name = "''label''" and w = w0 and event = "[(''id'', VInt 1), (''type'', VStr ''realm''), (''op'', VStr ''update_dict''),
        (''property'', VStr ''banner''),
        (''data'', VDict [(''icon_url'', VStr ''u''), (''icon_source'', VStr ''G'')])]", THEN mp]
  have r5: "fst (check_realm_update_dict ex_event_types ex_zerver ''label''
          [(''id'', VInt 1), (''type'', VStr ''realm''), (''op'', VStr ''update_dict''),
           (''property'', VStr ''banner''),
           (''data'', VDict [(''icon_url'', VStr ''u''), (''icon_source'', VStr ''G'')])] w0)
       = Inl (AssertionError (Msg ''unhandled property''))"
    by (rule t5 [THEN conjunct2, THEN conjunct2, rule_format, where p = "VStr ''banner''"])
       (use v5 in simp_all)
  have v6: "validate_with_model
          [(''id'', VInt 1), (''type'', VStr ''realm''), (''op'', VStr ''update_dict''),
           (''property'', VStr ''default''),
           (''data'', VDict [(''can_create_groups'', VInt 3)])]
          (EventRealmUpdateDict ex_event_types) = Inr ()"
    by (simp add: val_defs ex_EventRealmUpdateDict_def)
  note t6 = check_realm_update_dict_dispatch [where et = ex_event_types and z = ex_zerver
      and var_name = "''label''" and w = w0 and event = "[(''id'', VInt 1), (''type'', VStr ''realm''), (''op'', VStr ''update_dict''),
        (''property'', VStr ''default''),
        (''data'', VDict [(''can_create_groups'', VInt 3)])]", THEN mp]
  have r6: "fst (check_realm_update_dict ex_event_types ex_zerver ''label''
          [(''id'', VInt 1), (''type'', VStr ''realm''), (''op'', VStr ''update_dict''),
           (''property'', VStr ''default''),
           (''data'', VDict [(''can_create_groups'', VInt 3)])] w0)
       = Inr ()"
    by (simp add: t6 [THEN conjunct1, rule_format, where d = "[(''can_create_groups'', VInt 3)]",
          OF v6] spec_first_match_def
          spec_default_priority_def val_defs
          insert_Diff_if)
  from r1 r2 r3 r4 r5 r6 show ?thesis by blast
qed

subsection \<open>No hidden state\<close>





subsection \<open>\<^verbatim>\<open>check_realm_update\<close>: a boolean where an integer is expected\<close>

text \<open>
  The integer test of \<^verbatim>\<open>check_realm_update\<close> is \<^verbatim>\<open>isinstance(value, int)\<close>, and
  \<^verbatim>\<open>bool\<close> is a subclass of \<^verbatim>\<open>int\<close>: whenever the event model lets a boolean value
  through the base check, the checker accepts it for a property of the plain-integer list
  and for a property that the catalog types as \<^verbatim>\<open>int\<close>.  The strict validation of a field
  declared \<^verbatim>\<open>int\<close> rejects the same boolean.
\<close>

lemma realm_update_bool_passes_int_test:
  assumes "validate_with_model event (EventRealmUpdate et) = Inr ()"
    and "map_of event ''property'' = Some (VStr prop)"
    and "map_of event ''value'' = Some (VBool b)"
    and "prop \<in> set plain_int_props \<or> Realm_property_types z prop = Some (PClass [Cint])"
  shows "fst (check_realm_update et z var_name event prop w) = Inr ()"
  using assms
  by (auto simp: check_realm_update_def fst_after_make_checker realm_update_checks_def
      getitem_def eq_str_def py_assert_def isinstance_def issubclass_def)

lemma strict_int_rejects_bool: "\<not> conforms TInt (VBool b)"
  by simp

text \<open>
  Claim C1 (the code departs from it).  The claim wants \<^verbatim>\<open>check_realm_update\<close> to reject a
  boolean value for every property whose expected type is integer.  With the event model
  declaring \<^verbatim>\<open>value: bool | int | str\<close>, the event with \<^verbatim>\<open>property = "org_type"\<close> and
  \<^verbatim>\<open>value = True\<close> is accepted, and so is \<^verbatim>\<open>value = True\<close> for a property that
  \<^verbatim>\<open>Realm.property_types\<close> types as \<^verbatim>\<open>int\<close>; a boolean in the field \<^verbatim>\<open>id\<close>, declared
  \<^verbatim>\<open>int\<close>, is rejected by the strict validation with the type-mismatch error.
\<close>

theorem check_realm_update_accepts_bool_for_int:
  "fst (check_realm_update ex_event_types ex_zerver ''label''
          [(''id'', VInt 0), (''type'', VStr ''realm''), (''op'', VStr ''update''),
           (''property'', VStr ''org_type''), (''value'', VBool True)]
          ''org_type'' w0) = Inr ()
   \<and> fst (check_realm_update ex_event_types ex_zerver ''label''
          [(''id'', VInt 0), (''type'', VStr ''realm''), (''op'', VStr ''update''),
           (''property'', VStr ''waiting_period_threshold''), (''value'', VBool True)]
          ''waiting_period_threshold'' w0) = Inr ()
   \<and> fst (check_realm_update ex_event_types ex_zerver ''label''
          [(''id'', VBool True), (''type'', VStr ''realm''), (''op'', VStr ''update''),
           (''property'', VStr ''org_type''), (''value'', VInt 1)]
          ''org_type'' w0) = Inl ValidationError"
proof -
  have v1: "validate_with_model
          [(''id'', VInt 0), (''type'', VStr ''realm''), (''op'', VStr ''update''),
           (''property'', VStr ''org_type''), (''value'', VBool True)]
          (EventRealmUpdate ex_event_types) = Inr ()"
    by (simp add: val_defs ex_EventRealmUpdate_def)
  have v2: "validate_with_model
          [(''id'', VInt 0), (''type'', VStr ''realm''), (''op'', VStr ''update''),
           (''property'', VStr ''waiting_period_threshold''), (''value'', VBool True)]
          (EventRealmUpdate ex_event_types) = Inr ()"
    by (simp add: val_defs ex_EventRealmUpdate_def)
  have r1: "fst (check_realm_update ex_event_types ex_zerver ''label''
          [(''id'', VInt 0), (''type'', VStr ''realm''), (''op'', VStr ''update''),
           (''property'', VStr ''org_type''), (''value'', VBool True)]
          ''org_type'' w0) = Inr ()"
    by (rule realm_update_bool_passes_int_test [OF v1, where b = True])
       (simp_all add: plain_int_props_def)
  have r2: "fst (check_realm_update ex_event_types ex_zerver ''label''
          [(''id'', VInt 0), (''type'', VStr ''realm''), (''op'', VStr ''update''),
           (''property'', VStr ''waiting_period_threshold''), (''value'', VBool True)]
          ''waiting_period_threshold'' w0) = Inr ()"
    by (rule realm_update_bool_passes_int_test [OF v2, where b = True]) simp_all
  have r3: "fst (check_realm_update ex_event_types ex_zerver ''label''
          [(''id'', VBool True), (''type'', VStr ''realm''), (''op'', VStr ''update''),
           (''property'', VStr ''org_type''), (''value'', VInt 1)]
          ''org_type'' w0) = Inl ValidationError"
    by (simp add: check_realm_update_def fst_after_make_checker val_defs ex_EventRealmUpdate_def)
  from r1 r2 r3 show ?thesis by blast
qed

subsection \<open>\<^verbatim>\<open>check_realm_update\<close>: which properties bypass the catalog\<close>

lemma plain_int_props_set:
  "set plain_int_props =
     {''moderation_request_channel_id'', ''new_stream_announcements_stream_id'',
      ''signup_announcements_stream_id'', ''zulip_update_announcements_stream_id'',
      ''org_type''}"
  by (simp add: plain_int_props_def)

lemma realm_update_result:
  assumes "validate_with_model event (EventRealmUpdate et) = Inr ()"
    and "map_of event ''property'' = Some (VStr prop)"
    and "map_of event ''value'' = Some v"
  shows "fst (check_realm_update et z var_name event prop w) =
     (if prop \<in> set plain_int_props then py_assert (isinstance v [Cint])
      else case Realm_property_types z prop of
             None \<Rightarrow> Inl (KeyError (VStr prop))
           | Some (PEnum names) \<Rightarrow>
               (case v of
                  VStr s \<Rightarrow> if s \<in> set names then Inr () else Inl (KeyError (VStr s))
                | _ \<Rightarrow> Inl (AssertionError NoMsg))
           | Some (PClass cs) \<Rightarrow> py_assert (isinstance v cs))"
  using assms
  by (simp add: check_realm_update_def fst_after_make_checker realm_update_checks_def
      getitem_def eq_str_def)

lemma plain_int_props_bypass:
  assumes "prop \<in> set plain_int_props"
  shows "fst (check_realm_update et z var_name event prop w)
       = fst (check_realm_update et z' var_name event prop w)"
  using assms
  by (simp add: check_realm_update_def fst_after_make_checker realm_update_checks_def
      split: sum.splits)

lemma other_props_read_catalog:
  assumes "prop \<notin> set plain_int_props"
  shows "fst (check_realm_update ex_event_types
               (ex_zerver\<lparr>Realm_property_types := Map.empty\<rparr>) ''label''
               [(''id'', VInt 0), (''type'', VStr ''realm''), (''op'', VStr ''update''),
                (''property'', VStr prop), (''value'', VInt 0)] prop w0)
       \<noteq> fst (check_realm_update ex_event_types
               (ex_zerver\<lparr>Realm_property_types := (\<lambda>p. Some (PClass [Cint]))\<rparr>) ''label''
               [(''id'', VInt 0), (''type'', VStr ''realm''), (''op'', VStr ''update''),
                (''property'', VStr prop), (''value'', VInt 0)] prop w0)"
proof -
  have v: "validate_with_model
       [(''id'', VInt 0), (''type'', VStr ''realm''), (''op'', VStr ''update''),
        (''property'', VStr prop), (''value'', VInt 0)] (EventRealmUpdate ex_event_types) = Inr ()"
    by (simp add: val_defs ex_EventRealmUpdate_def)
  show ?thesis
    using assms
    by (simp add: realm_update_result [OF v] py_assert_def isinstance_def issubclass_def)
qed

text \<open>
  Claim C2 as stated fails: it counts four property names that bypass
  \<^verbatim>\<open>Realm.property_types\<close>, and the list of the source has five.  Each of the five distinct
  names is accepted with an integer value against an empty catalog, where the lookup of
  any other name raises \<^verbatim>\<open>KeyError\<close>.
\<close>

theorem four_plain_int_props_counterexample:
  "distinct
     [''moderation_request_channel_id'', ''new_stream_announcements_stream_id'',
      ''signup_announcements_stream_id'', ''zulip_update_announcements_stream_id'',
      ''org_type'']
   \<and> fst (check_realm_update ex_event_types (ex_zerver\<lparr>Realm_property_types := Map.empty\<rparr>) ''label''
          [(''id'', VInt 0), (''type'', VStr ''realm''), (''op'', VStr ''update''),
           (''property'', VStr ''moderation_request_channel_id''), (''value'', VInt 7)]
          ''moderation_request_channel_id'' w0) = Inr ()
   \<and> fst (check_realm_update ex_event_types (ex_zerver\<lparr>Realm_property_types := Map.empty\<rparr>) ''label''
          [(''id'', VInt 0), (''type'', VStr ''realm''), (''op'', VStr ''update''),
           (''property'', VStr ''new_stream_announcements_stream_id''), (''value'', VInt 7)]
          ''new_stream_announcements_stream_id'' w0) = Inr ()
   \<and> fst (check_realm_update ex_event_types (ex_zerver\<lparr>Realm_property_types := Map.empty\<rparr>) ''label''
          [(''id'', VInt 0), (''type'', VStr ''realm''), (''op'', VStr ''update''),
           (''property'', VStr ''signup_announcements_stream_id''), (''value'', VInt 7)]
          ''signup_announcements_stream_id'' w0) = Inr ()
   \<and> fst (check_realm_update ex_event_types (ex_zerver\<lparr>Realm_property_types := Map.empty\<rparr>) ''label''
          [(''id'', VInt 0), (''type'', VStr ''realm''), (''op'', VStr ''update''),
           (''property'', VStr ''zulip_update_announcements_stream_id''), (''value'', VInt 7)]
          ''zulip_update_announcements_stream_id'' w0) = Inr ()
   \<and> fst (check_realm_update ex_event_types (ex_zerver\<lparr>Realm_property_types := Map.empty\<rparr>) ''label''
          [(''id'', VInt 0), (''type'', VStr ''realm''), (''op'', VStr ''update''),
           (''property'', VStr ''org_type''), (''value'', VInt 7)]
          ''org_type'' w0) = Inr ()
   \<and> fst (check_realm_update ex_event_types (ex_zerver\<lparr>Realm_property_types := Map.empty\<rparr>) ''label''
          [(''id'', VInt 0), (''type'', VStr ''realm''), (''op'', VStr ''update''),
           (''property'', VStr ''name''), (''value'', VStr ''zulip'')]
          ''name'' w0)
       = Inl (KeyError (VStr ''name''))"
proof -
  have v1: "validate_with_model
          [(''id'', VInt 0), (''type'', VStr ''realm''), (''op'', VStr ''update''),
           (''property'', VStr ''moderation_request_channel_id''), (''value'', VInt 7)]
          (EventRealmUpdate ex_event_types) = Inr ()"
    by (simp add: val_defs ex_EventRealmUpdate_def)
  have r1: "fst (check_realm_update ex_event_types (ex_zerver\<lparr>Realm_property_types := Map.empty\<rparr>) ''label''
          [(''id'', VInt 0), (''type'', VStr ''realm''), (''op'', VStr ''update''),
           (''property'', VStr ''moderation_request_channel_id''), (''value'', VInt 7)]
          ''moderation_request_channel_id'' w0) = Inr ()"
    by (simp add: realm_update_result [OF v1] plain_int_props_def py_assert_def isinstance_def
        issubclass_def)
  have v2: "validate_with_model
          [(''id'', VInt 0), (''type'', VStr ''realm''), (''op'', VStr ''update''),
           (''property'', VStr ''new_stream_announcements_stream_id''), (''value'', VInt 7)]
          (EventRealmUpdate ex_event_types) = Inr ()"
    by (simp add: val_defs ex_EventRealmUpdate_def)
  have r2: "fst (check_realm_update ex_event_types (ex_zerver\<lparr>Realm_property_types := Map.empty\<rparr>) ''label''
          [(''id'', VInt 0), (''type'', VStr ''realm''), (''op'', VStr ''update''),
           (''property'', VStr ''new_stream_announcements_stream_id''), (''value'', VInt 7)]
          ''new_stream_announcements_stream_id'' w0) = Inr ()"
    by (simp add: realm_update_result [OF v2] plain_int_props_def py_assert_def isinstance_def
        issubclass_def)
  have v3: "validate_with_model
          [(''id'', VInt 0), (''type'', VStr ''realm''), (''op'', VStr ''update''),
           (''property'', VStr ''signup_announcements_stream_id''), (''value'', VInt 7)]
          (EventRealmUpdate ex_event_types) = Inr ()"
    by (simp add: val_defs ex_EventRealmUpdate_def)
  have r3: "fst (check_realm_update ex_event_types (ex_zerver\<lparr>Realm_property_types := Map.empty\<rparr>) ''label''
          [(''id'', VInt 0), (''type'', VStr ''realm''), (''op'', VStr ''update''),
           (''property'', VStr ''signup_announcements_stream_id''), (''value'', VInt 7)]
          ''signup_announcements_stream_id'' w0) = Inr ()"
    by (simp add: realm_update_result [OF v3] plain_int_props_def py_assert_def isinstance_def
        issubclass_def)
  have v4: "validate_with_model
          [(''id'', VInt 0), (''type'', VStr ''realm''), (''op'', VStr ''update''),
           (''property'', VStr ''zulip_update_announcements_stream_id''), (''value'', VInt 7)]
          (EventRealmUpdate ex_event_types) = Inr ()"
    by (simp add: val_defs ex_EventRealmUpdate_def)
  have r4: "fst (check_realm_update ex_event_types (ex_zerver\<lparr>Realm_property_types := Map.empty\<rparr>) ''label''
          [(''id'', VInt 0), (''type'', VStr ''realm''), (''op'', VStr ''update''),
           (''property'', VStr ''zulip_update_announcements_stream_id''), (''value'', VInt 7)]
          ''zulip_update_announcements_stream_id'' w0) = Inr ()"
    by (simp add: realm_update_result [OF v4] plain_int_props_def py_assert_def isinstance_def
        issubclass_def)
  have v5: "validate_with_model
          [(''id'', VInt 0), (''type'', VStr ''realm''), (''op'', VStr ''update''),
           (''property'', VStr ''org_type''), (''value'', VInt 7)]
          (EventRealmUpdate ex_event_types) = Inr ()"
    by (simp add: val_defs ex_EventRealmUpdate_def)
  have r5: "fst (check_realm_update ex_event_types (ex_zerver\<lparr>Realm_property_types := Map.empty\<rparr>) ''label''
          [(''id'', VInt 0), (''type'', VStr ''realm''), (''op'', VStr ''update''),
           (''property'', VStr ''org_type''), (''value'', VInt 7)]
          ''org_type'' w0) = Inr ()"
    by (simp add: realm_update_result [OF v5] plain_int_props_def py_assert_def isinstance_def
        issubclass_def)
  have v6: "validate_with_model
          [(''id'', VInt 0), (''type'', VStr ''realm''), (''op'', VStr ''update''),
           (''property'', VStr ''name''), (''value'', VStr ''zulip'')]
          (EventRealmUpdate ex_event_types) = Inr ()"
    by (simp add: val_defs ex_EventRealmUpdate_def)
  have r6: "fst (check_realm_update ex_event_types (ex_zerver\<lparr>Realm_property_types := Map.empty\<rparr>) ''label''
          [(''id'', VInt 0), (''type'', VStr ''realm''), (''op'', VStr ''update''),
           (''property'', VStr ''name''), (''value'', VStr ''zulip'')]
          ''name'' w0)
       = Inl (KeyError (VStr ''name''))"
    by (simp add: realm_update_result [OF v6] plain_int_props_def)
  have d: "distinct
     [''moderation_request_channel_id'', ''new_stream_announcements_stream_id'',
      ''signup_announcements_stream_id'', ''zulip_update_announcements_stream_id'',
      ''org_type'']"
    by simp
  from d r1 r2 r3 r4 r5 r6 show ?thesis by blast
qed

text \<open>
  Claim C2, amended.  In \<^verbatim>\<open>check_realm_update\<close> exactly five property names,
  \<^verbatim>\<open>moderation_request_channel_id\<close>, \<^verbatim>\<open>new_stream_announcements_stream_id\<close>,
  \<^verbatim>\<open>signup_announcements_stream_id\<close>, \<^verbatim>\<open>zulip_update_announcements_stream_id\<close> and
  \<^verbatim>\<open>org_type\<close>, bypass the catalog: the outcome is the same for every catalog exactly for
  these names.  For them, once the base check has passed and \<^verbatim>\<open>property\<close> is the expected
  name, an integer value is accepted and a value that is neither an integer nor a boolean
  raises \<^verbatim>\<open>AssertionError\<close>.  For every other name the catalog decides: a missing name
  raises \<^verbatim>\<open>KeyError\<close>, an enumeration accepts exactly the strings that name one of its
  members, and any other entry accepts exactly the values that pass \<^verbatim>\<open>isinstance\<close>.
\<close>

theorem check_realm_update_dispatch:
  "((\<forall>et z z' var_name event w.
        fst (check_realm_update et z var_name event prop w)
          = fst (check_realm_update et z' var_name event prop w))
      \<longleftrightarrow> prop \<in> {''moderation_request_channel_id'', ''new_stream_announcements_stream_id'',
           ''signup_announcements_stream_id'', ''zulip_update_announcements_stream_id'',
           ''org_type''})
   \<and> (validate_with_model event (EventRealmUpdate et) = Inr ()
        \<and> map_of event ''property'' = Some (VStr prop)
        \<and> map_of event ''value'' = Some v \<longrightarrow>
        (prop \<in> {''moderation_request_channel_id'', ''new_stream_announcements_stream_id'',
           ''signup_announcements_stream_id'', ''zulip_update_announcements_stream_id'',
           ''org_type''} \<longrightarrow>
           ((\<exists>n. v = VInt n) \<longrightarrow> fst (check_realm_update et z var_name event prop w) = Inr ())
           \<and> (type_of v \<notin> {Cint, Cbool} \<longrightarrow>
                fst (check_realm_update et z var_name event prop w)
                  = Inl (AssertionError NoMsg)))
        \<and> (prop \<notin> {''moderation_request_channel_id'', ''new_stream_announcements_stream_id'',
           ''signup_announcements_stream_id'', ''zulip_update_announcements_stream_id'',
           ''org_type''} \<longrightarrow>
           (case Realm_property_types z prop of
              None \<Rightarrow>
                fst (check_realm_update et z var_name event prop w) = Inl (KeyError (VStr prop))
            | Some (PEnum names) \<Rightarrow>
                (fst (check_realm_update et z var_name event prop w) = Inr ()
                   \<longleftrightarrow> (\<exists>s. v = VStr s \<and> s \<in> set names))
            | Some (PClass cs) \<Rightarrow>
                (fst (check_realm_update et z var_name event prop w) = Inr ()
                   \<longleftrightarrow> isinstance v cs))))"
proof -
  have five: "prop \<in> {''moderation_request_channel_id'', ''new_stream_announcements_stream_id'',
           ''signup_announcements_stream_id'', ''zulip_update_announcements_stream_id'',
           ''org_type''} \<longleftrightarrow> prop \<in> set plain_int_props"
    by (simp only: plain_int_props_set)
  have a: "(\<forall>et z z' var_name event w.
        fst (check_realm_update et z var_name event prop w)
          = fst (check_realm_update et z' var_name event prop w))
      \<longleftrightarrow> prop \<in> set plain_int_props"
    using plain_int_props_bypass [of "prop"] other_props_read_catalog [of "prop"]
    by blast
  note r = realm_update_result [of event et "prop" v z var_name w]
  have b: "validate_with_model event (EventRealmUpdate et) = Inr ()
        \<and> map_of event ''property'' = Some (VStr prop)
        \<and> map_of event ''value'' = Some v \<and> prop \<in> set plain_int_props \<longrightarrow>
      ((\<exists>n. v = VInt n) \<longrightarrow> fst (check_realm_update et z var_name event prop w) = Inr ())
      \<and> (type_of v \<notin> {Cint, Cbool} \<longrightarrow>
           fst (check_realm_update et z var_name event prop w) = Inl (AssertionError NoMsg))"
    by (auto simp: r py_assert_def isinstance_def issubclass_def)
  have c: "validate_with_model event (EventRealmUpdate et) = Inr ()
        \<and> map_of event ''property'' = Some (VStr prop)
        \<and> map_of event ''value'' = Some v \<and> prop \<notin> set plain_int_props \<longrightarrow>
      (case Realm_property_types z prop of
         None \<Rightarrow>
           fst (check_realm_update et z var_name event prop w) = Inl (KeyError (VStr prop))
       | Some (PEnum names) \<Rightarrow>
           (fst (check_realm_update et z var_name event prop w) = Inr ()
              \<longleftrightarrow> (\<exists>s. v = VStr s \<and> s \<in> set names))
       | Some (PClass cs) \<Rightarrow>
           (fst (check_realm_update et z var_name event prop w) = Inr ()
              \<longleftrightarrow> isinstance v cs))"
    by (auto simp: r py_assert_def split: option.splits property_type.splits pyval.splits)
  show ?thesis
    unfolding five using a b c by blast
qed

theorem check_realm_update_dispatch_witness:
  "fst (check_realm_update ex_event_types ex_zerver ''label''
          [(''id'', VInt 0), (''type'', VStr ''realm''), (''op'', VStr ''update''),
           (''property'', VStr ''org_type''), (''value'', VInt 5)]
          ''org_type'' w0)
     = fst (check_realm_update ex_event_types (ex_zerver\<lparr>Realm_property_types := Map.empty\<rparr>) ''label''
          [(''id'', VInt 0), (''type'', VStr ''realm''), (''op'', VStr ''update''),
           (''property'', VStr ''org_type''), (''value'', VInt 5)]
          ''org_type'' w0)
   \<and> fst (check_realm_update ex_event_types ex_zerver ''label''
          [(''id'', VInt 0), (''type'', VStr ''realm''), (''op'', VStr ''update''),
           (''property'', VStr ''org_type''), (''value'', VInt 5)]
          ''org_type'' w0)
       = Inr ()
   \<and> fst (check_realm_update ex_event_types ex_zerver ''label''
          [(''id'', VInt 0), (''type'', VStr ''realm''), (''op'', VStr ''update''),
           (''property'', VStr ''org_type''), (''value'', VStr ''5'')]
          ''org_type'' w0)
       = Inl (AssertionError NoMsg)
   \<and> fst (check_realm_update ex_event_types ex_zerver ''label''
          [(''id'', VInt 0), (''type'', VStr ''realm''), (''op'', VStr ''update''),
           (''property'', VStr ''topics_policy''), (''value'', VStr ''allow_empty_topic'')]
          ''topics_policy'' w0)
       = Inr ()
   \<and> fst (check_realm_update ex_event_types ex_zerver ''label''
          [(''id'', VInt 0), (''type'', VStr ''realm''), (''op'', VStr ''update''),
           (''property'', VStr ''topics_policy''), (''value'', VStr ''bogus'')]
          ''topics_policy'' w0)
       \<noteq> Inr ()
   \<and> fst (check_realm_update ex_event_types ex_zerver ''label''
          [(''id'', VInt 0), (''type'', VStr ''realm''), (''op'', VStr ''update''),
           (''property'', VStr ''waiting_period_threshold''), (''value'', VInt 3)]
          ''waiting_period_threshold'' w0)
       = Inr ()
   \<and> fst (check_realm_update ex_event_types ex_zerver ''label''
          [(''id'', VInt 0), (''type'', VStr ''realm''), (''op'', VStr ''update''),
           (''property'', VStr ''no_such_property''), (''value'', VInt 3)]
          ''no_such_property'' w0)
       = Inl (KeyError (VStr ''no_such_property''))"
proof -
  have r0: "fst (check_realm_update ex_event_types ex_zerver ''label''
          [(''id'', VInt 0), (''type'', VStr ''realm''), (''op'', VStr ''update''),
           (''property'', VStr ''org_type''), (''value'', VInt 5)]
          ''org_type'' w0)
     = fst (check_realm_update ex_event_types (ex_zerver\<lparr>Realm_property_types := Map.empty\<rparr>) ''label''
          [(''id'', VInt 0), (''type'', VStr ''realm''), (''op'', VStr ''update''),
           (''property'', VStr ''org_type''), (''value'', VInt 5)]
          ''org_type'' w0)"
    by (rule check_realm_update_dispatch [of "''org_type''", THEN conjunct1,
          THEN iffD2, rule_format]) simp
  have v1: "validate_with_model
          [(''id'', VInt 0), (''type'', VStr ''realm''), (''op'', VStr ''update''),
           (''property'', VStr ''org_type''), (''value'', VInt 5)]
          (EventRealmUpdate ex_event_types) = Inr ()"
    by (simp add: val_defs ex_EventRealmUpdate_def)
  note t1 = check_realm_update_dispatch [of "''org_type''"
      "[(''id'', VInt 0), (''type'', VStr ''realm''), (''op'', VStr ''update''),
        (''property'', VStr ''org_type''), (''value'', VInt 5)]"
      ex_event_types "VInt 5" ex_zerver "''label''" w0,
      THEN conjunct2, rule_format]
  have r1: "fst (check_realm_update ex_event_types ex_zerver ''label''
          [(''id'', VInt 0), (''type'', VStr ''realm''), (''op'', VStr ''update''),
           (''property'', VStr ''org_type''), (''value'', VInt 5)]
          ''org_type'' w0)
       = Inr ()"
    using t1 [THEN conjunct1] v1 by simp
  have v2: "validate_with_model
          [(''id'', VInt 0), (''type'', VStr ''realm''), (''op'', VStr ''update''),
           (''property'', VStr ''org_type''), (''value'', VStr ''5'')]
          (EventRealmUpdate ex_event_types) = Inr ()"
    by (simp add: val_defs ex_EventRealmUpdate_def)
  note t2 = check_realm_update_dispatch [of "''org_type''"
      "[(''id'', VInt 0), (''type'', VStr ''realm''), (''op'', VStr ''update''),
        (''property'', VStr ''org_type''), (''value'', VStr ''5'')]"
      ex_event_types "VStr ''5''" ex_zerver "''label''" w0,
      THEN conjunct2, rule_format]
  have r2: "fst (check_realm_update ex_event_types ex_zerver ''label''
          [(''id'', VInt 0), (''type'', VStr ''realm''), (''op'', VStr ''update''),
           (''property'', VStr ''org_type''), (''value'', VStr ''5'')]
          ''org_type'' w0)
       = Inl (AssertionError NoMsg)"
    using t2 [THEN conjunct1] v2 by simp
  have v3: "validate_with_model
          [(''id'', VInt 0), (''type'', VStr ''realm''), (''op'', VStr ''update''),
           (''property'', VStr ''topics_policy''), (''value'', VStr ''allow_empty_topic'')]
          (EventRealmUpdate ex_event_types) = Inr ()"
    by (simp add: val_defs ex_EventRealmUpdate_def)
  note t3 = check_realm_update_dispatch [of "''topics_policy''"
      "[(''id'', VInt 0), (''type'', VStr ''realm''), (''op'', VStr ''update''),
        (''property'', VStr ''topics_policy''), (''value'', VStr ''allow_empty_topic'')]"
      ex_event_types "VStr ''allow_empty_topic''" ex_zerver "''label''" w0,
      THEN conjunct2, rule_format]
  have r3: "fst (check_realm_update ex_event_types ex_zerver ''label''
          [(''id'', VInt 0), (''type'', VStr ''realm''), (''op'', VStr ''update''),
           (''property'', VStr ''topics_policy''), (''value'', VStr ''allow_empty_topic'')]
          ''topics_policy'' w0)
       = Inr ()"
    using t3 [THEN conjunct2] v3 by (simp add: ex_zerver_def isinstance_def issubclass_def)
  have v4: "validate_with_model
          [(''id'', VInt 0), (''type'', VStr ''realm''), (''op'', VStr ''update''),
           (''property'', VStr ''topics_policy''), (''value'', VStr ''bogus'')]
          (EventRealmUpdate ex_event_types) = Inr ()"
    by (simp add: val_defs ex_EventRealmUpdate_def)
  note t4 = check_realm_update_dispatch [of "''topics_policy''"
      "[(''id'', VInt 0), (''type'', VStr ''realm''), (''op'', VStr ''update''),
        (''property'', VStr ''topics_policy''), (''value'', VStr ''bogus'')]"
      ex_event_types "VStr ''bogus''" ex_zerver "''label''" w0,
      THEN conjunct2, rule_format]
  have r4: "fst (check_realm_update ex_event_types ex_zerver ''label''
          [(''id'', VInt 0), (''type'', VStr ''realm''), (''op'', VStr ''update''),
           (''property'', VStr ''topics_policy''), (''value'', VStr ''bogus'')]
          ''topics_policy'' w0)
       \<noteq> Inr ()"
    using t4 [THEN conjunct2] v4 by (simp add: ex_zerver_def isinstance_def issubclass_def)
  have v5: "validate_with_model
          [(''id'', VInt 0), (''type'', VStr ''realm''), (''op'', VStr ''update''),
           (''property'', VStr ''waiting_period_threshold''), (''value'', VInt 3)]
          (EventRealmUpdate ex_event_types) = Inr ()"
    by (simp add: val_defs ex_EventRealmUpdate_def)
  note t5 = check_realm_update_dispatch [of "''waiting_period_threshold''"
      "[(''id'', VInt 0), (''type'', VStr ''realm''), (''op'', VStr ''update''),
        (''property'', VStr ''waiting_period_threshold''), (''value'', VInt 3)]"
      ex_event_types "VInt 3" ex_zerver "''label''" w0,
      THEN conjunct2, rule_format]
  have r5: "fst (check_realm_update ex_event_types ex_zerver ''label''
          [(''id'', VInt 0), (''type'', VStr ''realm''), (''op'', VStr ''update''),
           (''property'', VStr ''waiting_period_threshold''), (''value'', VInt 3)]
          ''waiting_period_threshold'' w0)
       = Inr ()"
    using t5 [THEN conjunct2] v5 by (simp add: ex_zerver_def isinstance_def issubclass_def)
  have v6: "validate_with_model
          [(''id'', VInt 0), (''type'', VStr ''realm''), (''op'', VStr ''update''),
           (''property'', VStr ''no_such_property''), (''value'', VInt 3)]
          (EventRealmUpdate ex_event_types) = Inr ()"
    by (simp add: val_defs ex_EventRealmUpdate_def)
  note t6 = check_realm_update_dispatch [of "''no_such_property''"
      "[(''id'', VInt 0), (''type'', VStr ''realm''), (''op'', VStr ''update''),
        (''property'', VStr ''no_such_property''), (''value'', VInt 3)]"
      ex_event_types "VInt 3" ex_zerver "''label''" w0,
      THEN conjunct2, rule_format]
  have r6: "fst (check_realm_update ex_event_types ex_zerver ''label''
          [(''id'', VInt 0), (''type'', VStr ''realm''), (''op'', VStr ''update''),
           (''property'', VStr ''no_such_property''), (''value'', VInt 3)]
          ''no_such_property'' w0)
       = Inl (KeyError (VStr ''no_such_property''))"
    using t6 [THEN conjunct2] v6 by (simp add: ex_zerver_def isinstance_def issubclass_def)
  from r0 r1 r2 r3 r4 r5 r6 show ?thesis by blast
qed

end
